theory Spec2Isabelle
  imports Main
begin

section \<open>Go values used by the Linux Function App Slot adapter\<close>

text \<open>
  The adapter of \<^verbatim>\<open>linux_function_app_slot_resource.go\<close> is a straight line of remote
  calls with early returns. Each operation is embedded as a function from the answers of
  its collaborators (an environment record) to the list of remote calls it issued, in
  order, and its outcome. A run-time panic of the Go code (nil dereference, write to a
  nil map, index out of range) is an outcome of its own.
\<close>

datatype 'a outcome =
    Success 'a
  | MarkAsGone
  | ResourceRequiresImport
  | Errorf string
  | ReturnErr
  | Panic string

text \<open>
  What the adapter looks at in the answer of a client call: whether \<^verbatim>\<open>err != nil\<close>,
  what \<^verbatim>\<open>utils.ResponseWasNotFound\<close> says of the response, and the decoded body.
\<close>

record 'a response =
  failed :: bool
  not_found :: bool
  body :: 'a

subsection \<open>Types of the helpers package and of the web SDK\<close>

text \<open>
  The payloads below are declared outside the file under verification; the adapter only
  passes them from one helper to another, so they stay abstract.
\<close>

typedecl AuthSettings
typedecl Backup
typedecl ConnectionString
typedecl SiteCredential
typedecl FunctionAppAppServiceLogs
typedecl ManagedServiceIdentity
typedecl SiteAuthSettings
typedecl BackupRequest
typedecl ConnectionStringDictionary
typedecl SiteLogsConfig
typedecl User
typedecl BackupRequestProperties
typedecl SiteAuthSettingsProperties
typedecl ConnStringValueTypePair

record ApplicationStackDocker =
  RegistryURL :: string
  RegistryUsername :: string
  RegistryPassword :: string

record ApplicationStackLinuxFunctionApp =
  Docker :: "ApplicationStackDocker list"
  CustomHandler :: bool

record SiteConfigLinuxFunctionAppSlot =
  ApplicationStack :: "ApplicationStackLinuxFunctionApp list"
  AppInsightsInstrumentationKey :: string
  AppInsightsConnectionString :: string
  HealthCheckEvictionTime :: int
  LinuxFxVersion :: string
  AppServiceLogs :: "FunctionAppAppServiceLogs list"

text \<open>
  A Go map is \<^verbatim>\<open>nil\<close> or a table: \<open>None\<close> is the nil map, which can be read but not
  written.
\<close>

type_synonym string_map = "(string \<rightharpoonup> string) option"

record LinuxFunctionAppSlotModel =
  Name :: string
  FunctionAppID :: string
  StorageAccountName :: string
  StorageAccountKey :: string
  StorageUsesMSI :: bool
  StorageKeyVaultSecretID :: string
  AppSettings :: string_map
  AuthSettings :: "AuthSettings list"
  Backup :: "Backup list"
  BuiltinLogging :: bool
  ClientCertEnabled :: bool
  ClientCertMode :: string
  ConnectionStrings :: "ConnectionString list"
  DailyMemoryTimeQuota :: int
  Enabled :: bool
  FunctionExtensionsVersion :: string
  ForceDisableContentShare :: bool
  HttpsOnly :: bool
  KeyVaultReferenceIdentityID :: string
  SiteConfig :: "SiteConfigLinuxFunctionAppSlot list"
  Tags :: string_map
  CustomDomainVerificationId :: string
  DefaultHostname :: string
  Kind :: string
  OutboundIPAddresses :: string
  OutboundIPAddressList :: "string list"
  PossibleOutboundIPAddresses :: string
  PossibleOutboundIPAddressList :: "string list"
  SiteCredentials :: "SiteCredential list"

text \<open>The zero value of the model, as \<^verbatim>\<open>var state LinuxFunctionAppSlotModel\<close> gives it.\<close>

definition zero_LinuxFunctionAppSlotModel :: LinuxFunctionAppSlotModel where
  "zero_LinuxFunctionAppSlotModel =
     \<lparr> Name = [], FunctionAppID = [], StorageAccountName = [], StorageAccountKey = [],
       StorageUsesMSI = False, StorageKeyVaultSecretID = [], AppSettings = None,
       AuthSettings = [], Backup = [], BuiltinLogging = False, ClientCertEnabled = False,
       ClientCertMode = [], ConnectionStrings = [], DailyMemoryTimeQuota = 0,
       Enabled = False, FunctionExtensionsVersion = [], ForceDisableContentShare = False,
       HttpsOnly = False, KeyVaultReferenceIdentityID = [], SiteConfig = [], Tags = None,
       CustomDomainVerificationId = [], DefaultHostname = [], Kind = [],
       OutboundIPAddresses = [], OutboundIPAddressList = [],
       PossibleOutboundIPAddresses = [], PossibleOutboundIPAddressList = [],
       SiteCredentials = [] \<rparr>"

record FunctionAppSlotId =
  SubscriptionId :: string
  ResourceGroup :: string
  SiteName :: string
  SlotName :: string

text \<open>The wire model: \<^verbatim>\<open>web.Site\<close> with its embedded \<^verbatim>\<open>*web.SiteProperties\<close>.\<close>

record NameValuePair =
  nv_Name :: "string option"
  nv_Value :: "string option"

record web_SiteConfig =
  sc_AppSettings :: "NameValuePair list option"
  sc_LinuxFxVersion :: "string option"

record web_SiteProperties =
  sp_Enabled :: "bool option"
  sp_HTTPSOnly :: "bool option"
  sp_ClientCertEnabled :: "bool option"
  sp_ClientCertMode :: string
  sp_DailyMemoryTimeQuota :: "int option"
  sp_KeyVaultReferenceIdentity :: "string option"
  sp_CustomDomainVerificationID :: "string option"
  sp_DefaultHostName :: "string option"
  sp_ServerFarmID :: "string option"
  sp_SiteConfig :: "web_SiteConfig option"

record web_Site =
  site_Location :: "string option"
  site_Tags :: "(string \<rightharpoonup> string option) option"
  site_Kind :: "string option"
  site_Identity :: "ManagedServiceIdentity option"
  SiteProperties :: "web_SiteProperties option"

record FunctionAppId =
  fa_ResourceGroup :: string
  fa_SiteName :: string

record ServicePlanId =
  plan_ResourceGroup :: string
  ServerfarmName :: string

record SkuDescription =
  Tier :: "string option"

record HostingEnvironmentProfile =
  hep_ID :: "string option"

record AppServicePlan =
  Sku :: "SkuDescription option"
  plan_HostingEnvironmentProfile :: "HostingEnvironmentProfile option"

record AppServiceEnvironmentId =
  ase_ResourceGroup :: string
  HostingEnvironmentName :: string

record AppServiceEnvironment =
  DNSSuffix :: "string option"

record AppServiceEnvironmentResource =
  ase_AppServiceEnvironment :: "AppServiceEnvironment option"

record ResourceNameAvailabilityRequest =
  ar_Name :: "string option"
  ar_IsFqdn :: "bool option"

record ResourceNameAvailability =
  NameAvailable :: "bool option"
  Message :: "string option"

text \<open>
  The remote calls of the adapter, by the name of the client method. The full-document
  PUT carries the envelope it sends. \<open>ServicePlanInfoForApp\<close> stands for the lookups
  that the helper of that name makes.
\<close>

datatype call =
    Get
  | ServicePlanGet
  | GetSlot
  | AppServiceEnvironmentGet
  | CheckNameAvailability
  | CreateOrUpdateSlot web_Site
  | WaitForCompletionRef
  | UpdateBackupConfigurationSlot
  | DeleteBackupConfigurationSlot
  | UpdateAuthSettingsSlot
  | UpdateConnectionStringsSlot
  | UpdateDiagnosticLogsConfigSlot
  | UpdateConfigurationSlot
  | ListApplicationSettings
  | ListApplicationSettingsSlot
  | ListConnectionStringsSlot
  | ListPublishingCredentialsSlot
  | GetAuthSettingsSlot
  | GetBackupConfigurationSlot
  | GetDiagnosticLogsConfigurationSlot
  | GetConfigurationSlot
  | DeleteSlot
  | ServicePlanInfoForApp

text \<open>
  \<^verbatim>\<open>web.StringDictionary\<close>: the properties are a Go map from names to string pointers.
  The list holds its entries in the order in which \<^verbatim>\<open>range\<close> happens to visit them
  (Go leaves that order open, so every order of the entries is a possible run).
\<close>

record StringDictionary =
  Properties :: "(string \<times> string option) list option"

subsection \<open>Library functions\<close>

text \<open>
  Modelled from the spec: the \<^verbatim>\<open>utils.NormalizeNilable*\<close> helpers are not in the files
  under verification; the spec's edge-case policy is that absent or null remote fields
  map to the zero value of their type.
\<close>

definition NormalizeNilableString :: "string option \<Rightarrow> string" where
  "NormalizeNilableString v = (case v of None \<Rightarrow> [] | Some s \<Rightarrow> s)"

definition NormaliseNilableBool :: "bool option \<Rightarrow> bool" where
  "NormaliseNilableBool v = (case v of None \<Rightarrow> False | Some b \<Rightarrow> b)"

definition NormaliseNilableInt32 :: "int option \<Rightarrow> int" where
  "NormaliseNilableInt32 v = (case v of None \<Rightarrow> 0 | Some i \<Rightarrow> i)"

definition NormaliseNilableInt :: "int option \<Rightarrow> int" where
  "NormaliseNilableInt v = (case v of None \<Rightarrow> 0 | Some i \<Rightarrow> i)"

text \<open>\<^verbatim>\<open>strings.HasPrefix\<close>, \<^verbatim>\<open>strings.TrimPrefix\<close> and \<^verbatim>\<open>strings.TrimSuffix\<close> on byte strings.\<close>

definition HasPrefix :: "string \<Rightarrow> string \<Rightarrow> bool" where
  "HasPrefix s p = (take (length p) s = p)"

definition TrimPrefix :: "string \<Rightarrow> string \<Rightarrow> string" where
  "TrimPrefix s p = (if HasPrefix s p then drop (length p) s else s)"

definition TrimSuffix :: "string \<Rightarrow> string \<Rightarrow> string" where
  "TrimSuffix s x =
     (if length x \<le> length s \<and> drop (length s - length x) s = x
      then take (length s - length x) s else s)"

text \<open>
  \<^verbatim>\<open>strconv.Atoi\<close> on a 64-bit platform: an optional sign, then decimal digits. The
  result is the value and whether an error came with it: a syntax error comes with 0,
  a range error with the nearest bound of \<^verbatim>\<open>int64\<close>.
\<close>

datatype uint_parse = UVal nat | USyntax | URange

fun ParseUint_loop :: "string \<Rightarrow> nat \<Rightarrow> uint_parse" where
  "ParseUint_loop [] n = UVal n"
| "ParseUint_loop (c # cs) n =
     (let d = (of_char c :: nat) in
      if d < 48 \<or> 57 < d then USyntax
      else if 2 ^ 64 div 10 + 1 \<le> n then URange
      else if 2 ^ 64 - 1 < n * 10 + (d - 48) then URange
      else ParseUint_loop cs (n * 10 + (d - 48)))"

definition Atoi :: "string \<Rightarrow> int \<times> bool" where
  "Atoi s =
     (case s of
        [] \<Rightarrow> (0, True)
      | c # cs \<Rightarrow>
          (let neg = (c = CHR ''-'');
               ds = (if c = CHR ''+'' \<or> c = CHR ''-'' then cs else s)
           in if ds = [] then (0, True)
              else (case ParseUint_loop ds 0 of
                      USyntax \<Rightarrow> (0, True)
                    | URange \<Rightarrow> (if neg then - (2 ^ 63) else 2 ^ 63 - 1, True)
                    | UVal un \<Rightarrow>
                        if \<not> neg \<and> 2 ^ 63 \<le> un then (2 ^ 63 - 1, True)
                        else if neg \<and> 2 ^ 63 < un then (- (2 ^ 63), True)
                        else (if neg then - int un else int un, False))))"

section \<open>Flatten of the application settings\<close>

text \<open>
  The collaborators every operation shares: the framework's queries on the resource data
  (\<open>GetOk key\<close> is the \<^verbatim>\<open>ok\<close> of \<^verbatim>\<open>metadata.ResourceData.GetOk(key)\<close>, \<open>HasChange\<close>
  the change-set flag of a field) and the functions of the helpers, tags and parse
  packages, which are not in the file under verification and are taken as they come.
  A helper that returns a value and an error returns a pair here (the flag says that an
  error came with the value), or \<open>None\<close> where the source only uses the value when no
  error came. The parse functions return a nil identifier together with their error:
  \<open>None\<close>.
\<close>

record adapter_env =
  GetOk :: "string \<Rightarrow> bool"
  HasChange :: "string \<Rightarrow> bool"
  ParseWebJobsStorageString :: "string option \<Rightarrow> string \<times> string"
  DecodeFunctionAppDockerFxString ::
    "string \<Rightarrow> ApplicationStackDocker \<Rightarrow> ApplicationStackDocker list \<times> bool"
  FlattenSiteConfigLinuxFunctionAppSlot ::
    "web_SiteConfig option \<Rightarrow> SiteConfigLinuxFunctionAppSlot option"
  FlattenConnectionStrings :: "ConnectionStringDictionary \<Rightarrow> ConnectionString list"
  FlattenSiteCredentials :: "User \<Rightarrow> SiteCredential list"
  FlattenAuthSettings :: "SiteAuthSettings \<Rightarrow> AuthSettings list"
  FlattenBackupConfig :: "BackupRequest \<Rightarrow> Backup list"
  FlattenFunctionAppAppServiceLogs :: "SiteLogsConfig \<Rightarrow> FunctionAppAppServiceLogs list"
  NewFunctionAppID_ID :: "string \<Rightarrow> string \<Rightarrow> string \<Rightarrow> string"
  ToTypedObject :: "(string \<rightharpoonup> string option) option \<Rightarrow> string_map"
  FromTypedObject :: "string_map \<Rightarrow> (string \<rightharpoonup> string option) option"
  StorageStringFmtKV :: "string \<Rightarrow> string"
  StorageStringFmt :: "string \<Rightarrow> string \<Rightarrow> string \<Rightarrow> string"
  StorageEndpointSuffix :: string
  ExpandSiteConfigLinuxFunctionAppSlot ::
    "SiteConfigLinuxFunctionAppSlot list \<Rightarrow> web_SiteConfig option \<Rightarrow> string \<Rightarrow> string \<Rightarrow> bool \<Rightarrow>
     web_SiteConfig option \<times> bool"
  EncodeFunctionAppLinuxFxVersion :: "ApplicationStackLinuxFunctionApp list \<Rightarrow> string option"
  MergeUserAppSettings :: "NameValuePair list option \<Rightarrow> string_map \<Rightarrow> NameValuePair list option"
  ParseContentSettings :: "StringDictionary \<Rightarrow> string_map \<Rightarrow> string_map"
  ExpandBackupConfig :: "Backup list \<Rightarrow> BackupRequestProperties option"
  ExpandAuthSettings :: "AuthSettings list \<Rightarrow> SiteAuthSettingsProperties option"
  ExpandConnectionStrings :: "ConnectionString list \<Rightarrow> (string \<rightharpoonup> ConnStringValueTypePair) option"
  expandIdentity :: "ManagedServiceIdentity option option"
  PlanIsElastic :: "string option \<Rightarrow> bool"
  parse_FunctionAppID :: "string \<Rightarrow> FunctionAppId option"
  parse_ServicePlanID :: "string \<Rightarrow> ServicePlanId option"
  ServicePlanId_ID :: "ServicePlanId \<Rightarrow> string"
  parse_AppServiceEnvironmentID :: "string \<Rightarrow> AppServiceEnvironmentId option"

text \<open>The variables of the loop: the receiver, \<^verbatim>\<open>appSettings\<close> and \<^verbatim>\<open>dockerSettings\<close>.\<close>

record unpack_vars =
  v_m :: LinuxFunctionAppSlotModel
  v_appSettings :: "string \<rightharpoonup> string"
  v_dockerSettings :: ApplicationStackDocker

text \<open>
  An assignment to a field of \<^verbatim>\<open>m.SiteConfig[0]\<close>; \<open>None\<close> is the index-out-of-range
  panic on an empty slice.
\<close>

definition set_SiteConfig0 ::
  "(SiteConfigLinuxFunctionAppSlot \<Rightarrow> SiteConfigLinuxFunctionAppSlot) \<Rightarrow>
   LinuxFunctionAppSlotModel \<Rightarrow> LinuxFunctionAppSlotModel option" where
  "set_SiteConfig0 f st =
     (case SiteConfig st of
        [] \<Rightarrow> None
      | sc # rest \<Rightarrow> Some (st\<lparr>SiteConfig := f sc # rest\<rparr>))"

definition on_m ::
  "(LinuxFunctionAppSlotModel \<Rightarrow> LinuxFunctionAppSlotModel option) \<Rightarrow>
   unpack_vars \<Rightarrow> unpack_vars option" where
  "on_m f s = (case f (v_m s) of None \<Rightarrow> None | Some st \<Rightarrow> Some (s\<lparr>v_m := st\<rparr>))"

definition keep_if_configured :: "'a adapter_env_scheme \<Rightarrow> string \<Rightarrow> string option \<Rightarrow> unpack_vars \<Rightarrow> unpack_vars" where
  "keep_if_configured env k v s =
     (if GetOk env (''app_settings.'' @ k)
      then s\<lparr>v_appSettings := (v_appSettings s)(k \<mapsto> NormalizeNilableString v)\<rparr>
      else s)"

text \<open>One pass of the \<^verbatim>\<open>switch k\<close>; \<open>None\<close> is a panic.\<close>

definition unpack_case ::
  "'a adapter_env_scheme \<Rightarrow> string \<Rightarrow> string option \<Rightarrow> unpack_vars \<Rightarrow> unpack_vars option" where
  "unpack_case env k v s =
     (if k = ''FUNCTIONS_EXTENSION_VERSION'' then
        Some (s\<lparr>v_m := (v_m s)\<lparr>FunctionExtensionsVersion := NormalizeNilableString v\<rparr>\<rparr>)
      else if k = ''WEBSITE_NODE_DEFAULT_VERSION'' then Some s
      else if k = ''WEBSITE_CONTENTAZUREFILECONNECTIONSTRING'' then
        Some (keep_if_configured env k v s)
      else if k = ''WEBSITE_CONTENTSHARE'' then
        Some (keep_if_configured env k v s)
      else if k = ''WEBSITE_HTTPLOGGING_RETENTION_DAYS'' then Some s
      else if k = ''FUNCTIONS_WORKER_RUNTIME'' then
        (case SiteConfig (v_m s) of
           [] \<Rightarrow> Some (keep_if_configured env k v s)
         | sc # rest \<Rightarrow>
             if ApplicationStack sc = [] then
               (case v of
                  None \<Rightarrow> None
                | Some x \<Rightarrow>
                    if x = ''custom'' then
                      Some (keep_if_configured env k v
                        (s\<lparr>v_m := (v_m s)\<lparr>SiteConfig :=
                           sc\<lparr>ApplicationStack := [\<lparr>Docker = [], CustomHandler = True\<rparr>]\<rparr> # rest\<rparr>\<rparr>))
                    else Some (keep_if_configured env k v s))
             else Some (keep_if_configured env k v s))
      else if k = ''DOCKER_REGISTRY_SERVER_URL'' then
        Some (s\<lparr>v_dockerSettings := (v_dockerSettings s)\<lparr>RegistryURL := NormalizeNilableString v\<rparr>\<rparr>)
      else if k = ''DOCKER_REGISTRY_SERVER_USERNAME'' then
        Some (s\<lparr>v_dockerSettings := (v_dockerSettings s)\<lparr>RegistryUsername := NormalizeNilableString v\<rparr>\<rparr>)
      else if k = ''DOCKER_REGISTRY_SERVER_PASSWORD'' then
        Some (s\<lparr>v_dockerSettings := (v_dockerSettings s)\<lparr>RegistryPassword := NormalizeNilableString v\<rparr>\<rparr>)
      else if k = ''APPINSIGHTS_INSTRUMENTATIONKEY'' then
        on_m (set_SiteConfig0 (\<lambda>sc. sc\<lparr>AppInsightsInstrumentationKey := NormalizeNilableString v\<rparr>)) s
      else if k = ''APPLICATIONINSIGHTS_CONNECTION_STRING'' then
        on_m (set_SiteConfig0 (\<lambda>sc. sc\<lparr>AppInsightsConnectionString := NormalizeNilableString v\<rparr>)) s
      else if k = ''AzureWebJobsStorage'' then
        (case v of
           None \<Rightarrow>
             Some (s\<lparr>v_m := (v_m s)\<lparr>StorageAccountName := fst (ParseWebJobsStorageString env v),
                                StorageAccountKey := snd (ParseWebJobsStorageString env v)\<rparr>\<rparr>)
         | Some x \<Rightarrow>
             if HasPrefix x ''@Microsoft.KeyVault'' then
               Some (s\<lparr>v_m := (v_m s)\<lparr>StorageKeyVaultSecretID :=
                  TrimPrefix (TrimSuffix x '')'') ''@Microsoft.KeyVault(SecretUri=''\<rparr>\<rparr>)
             else
               Some (s\<lparr>v_m := (v_m s)\<lparr>StorageAccountName := fst (ParseWebJobsStorageString env v),
                                  StorageAccountKey := snd (ParseWebJobsStorageString env v)\<rparr>\<rparr>))
      else if k = ''AzureWebJobsDashboard'' then
        Some (s\<lparr>v_m := (v_m s)\<lparr>BuiltinLogging := True\<rparr>\<rparr>)
      else if k = ''WEBSITE_HEALTHCHECK_MAXPINGFAILURES'' then
        on_m (set_SiteConfig0 (\<lambda>sc. sc\<lparr>HealthCheckEvictionTime :=
                NormaliseNilableInt (Some (fst (Atoi (NormalizeNilableString v))))\<rparr>)) s
      else if k = ''AzureWebJobsStorage__accountName'' then
        Some (s\<lparr>v_m := (v_m s)\<lparr>StorageUsesMSI := True,
                           StorageAccountName := NormalizeNilableString v\<rparr>\<rparr>)
      else if k = ''AzureWebJobsDashboard__accountName'' then
        Some (s\<lparr>v_m := (v_m s)\<lparr>BuiltinLogging := True\<rparr>\<rparr>)
      else if k = ''WEBSITE_RUN_FROM_PACKAGE'' then
        Some (keep_if_configured env k v s)
      else Some (s\<lparr>v_appSettings := (v_appSettings s)(k \<mapsto> NormalizeNilableString v)\<rparr>))"

fun unpack_loop ::
  "'a adapter_env_scheme \<Rightarrow> (string \<times> string option) list \<Rightarrow> unpack_vars \<Rightarrow> unpack_vars option" where
  "unpack_loop env [] s = Some s"
| "unpack_loop env ((k, v) # kvs) s =
     (case unpack_case env k v s of
        None \<Rightarrow> None
      | Some s' \<Rightarrow> unpack_loop env kvs s')"

text \<open>
  \<^verbatim>\<open>unpackLinuxFunctionAppSettings\<close>: it has no error result; \<open>None\<close> is a panic. The
  error of \<^verbatim>\<open>strconv.Atoi\<close> and the error of the Docker decode are dropped by the
  source (\<^verbatim>\<open>i, _ :=\<close> and \<^verbatim>\<open>docker, _ :=\<close>): only the values are used.
\<close>

definition unpackLinuxFunctionAppSettings ::
  "'a adapter_env_scheme \<Rightarrow> StringDictionary \<Rightarrow> LinuxFunctionAppSlotModel \<Rightarrow>
   LinuxFunctionAppSlotModel option" where
  "unpackLinuxFunctionAppSettings env input st =
     (case Properties input of
        None \<Rightarrow> Some st
      | Some props \<Rightarrow>
          (case unpack_loop env props
                  \<lparr> v_m = st\<lparr>BuiltinLogging := False\<rparr>, v_appSettings = Map.empty,
                    v_dockerSettings = \<lparr>RegistryURL = [], RegistryUsername = [], RegistryPassword = []\<rparr> \<rparr> of
             None \<Rightarrow> None
           | Some s \<Rightarrow>
               (if RegistryURL (v_dockerSettings s) \<noteq> [] then
                  (case set_SiteConfig0
                          (\<lambda>sc. sc\<lparr>ApplicationStack :=
                             [\<lparr>Docker = fst (DecodeFunctionAppDockerFxString env (LinuxFxVersion sc) (v_dockerSettings s)),
                               CustomHandler = False\<rparr>]\<rparr>) (v_m s) of
                     None \<Rightarrow> None
                   | Some st' \<Rightarrow> Some (st'\<lparr>AppSettings := Some (v_appSettings s)\<rparr>))
                else Some ((v_m s)\<lparr>AppSettings := Some (v_appSettings s)\<rparr>))))"

section \<open>Read\<close>

text \<open>
  The collaborators of \<^verbatim>\<open>Read\<close>. \<open>FunctionAppSlotID\<close> is the parse of the tracked
  identifier (\<open>None\<close> when it fails), each \<open>r_\<close> field is the answer of the client call
  of that name, and the last three say whether the encode of the state, the flatten of
  the identity and the set of the identity failed.
\<close>

record read_env = adapter_env +
  FunctionAppSlotID :: "FunctionAppSlotId option"
  r_GetSlot :: "web_Site response"
  r_ListApplicationSettingsSlot :: "StringDictionary response"
  r_ListConnectionStringsSlot :: "ConnectionStringDictionary response"
  r_ListPublishingCredentialsSlot_failed :: bool
  r_WaitForCompletionRef_failed :: bool
  r_Result :: "User response"
  r_GetAuthSettingsSlot :: "SiteAuthSettings response"
  r_GetBackupConfigurationSlot :: "BackupRequest response"
  r_GetDiagnosticLogsConfigurationSlot :: "SiteLogsConfig response"
  r_GetConfigurationSlot :: "web_SiteConfig option response"
  Encode_failed :: bool
  flattenIdentity_failed :: bool
  Set_identity_failed :: bool

text \<open>The state literal that \<^verbatim>\<open>Read\<close> builds from the slot and its properties.\<close>

definition Read_state ::
  "'a read_env_scheme \<Rightarrow> FunctionAppSlotId \<Rightarrow> web_Site \<Rightarrow> web_SiteProperties \<Rightarrow>
   LinuxFunctionAppSlotModel" where
  "Read_state env sid functionApp props =
     zero_LinuxFunctionAppSlotModel
       \<lparr> Name := SlotName sid,
         FunctionAppID := NewFunctionAppID_ID env (SubscriptionId sid) (ResourceGroup sid) (SiteName sid),
         Enabled := NormaliseNilableBool (sp_Enabled props),
         ClientCertMode := sp_ClientCertMode props,
         DailyMemoryTimeQuota := NormaliseNilableInt32 (sp_DailyMemoryTimeQuota props),
         Tags := ToTypedObject env (site_Tags functionApp),
         Kind := NormalizeNilableString (site_Kind functionApp),
         KeyVaultReferenceIdentityID := NormalizeNilableString (sp_KeyVaultReferenceIdentity props),
         CustomDomainVerificationId := NormalizeNilableString (sp_CustomDomainVerificationID props),
         DefaultHostname := NormalizeNilableString (sp_DefaultHostName props) \<rparr>"

text \<open>
  The part of \<^verbatim>\<open>Read\<close> after the last remote call: flatten everything into the state
  and encode it.
\<close>

definition Read_flatten ::
  "'a read_env_scheme \<Rightarrow> web_SiteProperties \<Rightarrow> LinuxFunctionAppSlotModel \<Rightarrow>
   LinuxFunctionAppSlotModel outcome" where
  "Read_flatten env props state =
     (case FlattenSiteConfigLinuxFunctionAppSlot env (body (r_GetConfigurationSlot env)) of
        None \<Rightarrow> Errorf ''reading Site Config for Linux %s: %+v''
      | Some siteConfig \<Rightarrow>
     (case unpackLinuxFunctionAppSettings env
             (body (r_ListApplicationSettingsSlot env)) (state\<lparr>SiteConfig := [siteConfig]\<rparr>) of
        None \<Rightarrow> Panic ''unpackLinuxFunctionAppSettings''
      | Some st1 \<Rightarrow>
     (case set_SiteConfig0
             (\<lambda>sc. sc\<lparr>AppServiceLogs :=
                FlattenFunctionAppAppServiceLogs env (body (r_GetDiagnosticLogsConfigurationSlot env))\<rparr>)
             (st1\<lparr> ConnectionStrings := FlattenConnectionStrings env (body (r_ListConnectionStringsSlot env)),
                   SiteCredentials := FlattenSiteCredentials env (body (r_Result env)),
                   AuthSettings := FlattenAuthSettings env (body (r_GetAuthSettingsSlot env)),
                   Backup := FlattenBackupConfig env (body (r_GetBackupConfigurationSlot env)) \<rparr>) of
        None \<Rightarrow> Panic ''index out of range''
      | Some st2 \<Rightarrow>
          (let st3 = st2\<lparr> HttpsOnly := NormaliseNilableBool (sp_HTTPSOnly props),
                          ClientCertEnabled := NormaliseNilableBool (sp_ClientCertEnabled props) \<rparr>
           in if Encode_failed env then Errorf ''encoding: %+v''
              else if flattenIdentity_failed env then Errorf ''flattening `identity`: %+v''
              else if Set_identity_failed env then Errorf ''setting `identity`: %+v''
              else Success st3))))"

definition Read :: "'a read_env_scheme \<Rightarrow> call list \<times> LinuxFunctionAppSlotModel outcome" where
  "Read env =
     (case FunctionAppSlotID env of
        None \<Rightarrow> ([], ReturnErr)
      | Some sid \<Rightarrow>
     if failed (r_GetSlot env) then
       (if not_found (r_GetSlot env) then ([GetSlot], MarkAsGone)
        else ([GetSlot], Errorf ''reading Linux %s: %+v''))
     else
     (case SiteProperties (body (r_GetSlot env)) of
        None \<Rightarrow> ([GetSlot], Errorf ''reading properties of Linux %s'')
      | Some props \<Rightarrow>
     if failed (r_ListApplicationSettingsSlot env) then
       ([GetSlot, ListApplicationSettingsSlot], Errorf ''reading App Settings for Linux %s: %+v'')
     else if failed (r_ListConnectionStringsSlot env) then
       ([GetSlot, ListApplicationSettingsSlot, ListConnectionStringsSlot],
        Errorf ''reading Connection String information for Linux %s: %+v'')
     else if r_ListPublishingCredentialsSlot_failed env then
       ([GetSlot, ListApplicationSettingsSlot, ListConnectionStringsSlot,
         ListPublishingCredentialsSlot],
        Errorf ''listing Site Publishing Credential information for Linux %s: %+v'')
     else if r_WaitForCompletionRef_failed env then
       ([GetSlot, ListApplicationSettingsSlot, ListConnectionStringsSlot,
         ListPublishingCredentialsSlot, WaitForCompletionRef],
        Errorf ''waiting for Site Publishing Credential information for Linux %s: %+v'')
     else if failed (r_Result env) then
       ([GetSlot, ListApplicationSettingsSlot, ListConnectionStringsSlot,
         ListPublishingCredentialsSlot, WaitForCompletionRef],
        Errorf ''reading Site Publishing Credential information for Linux %s: %+v'')
     else if failed (r_GetAuthSettingsSlot env) then
       ([GetSlot, ListApplicationSettingsSlot, ListConnectionStringsSlot,
         ListPublishingCredentialsSlot, WaitForCompletionRef, GetAuthSettingsSlot],
        Errorf ''reading Auth Settings for Linux %s: %+v'')
     else if failed (r_GetBackupConfigurationSlot env)
             \<and> \<not> not_found (r_GetBackupConfigurationSlot env) then
       ([GetSlot, ListApplicationSettingsSlot, ListConnectionStringsSlot,
         ListPublishingCredentialsSlot, WaitForCompletionRef, GetAuthSettingsSlot,
         GetBackupConfigurationSlot],
        Errorf ''reading Backup Settings for Linux %s: %+v'')
     else if failed (r_GetDiagnosticLogsConfigurationSlot env) then
       ([GetSlot, ListApplicationSettingsSlot, ListConnectionStringsSlot,
         ListPublishingCredentialsSlot, WaitForCompletionRef, GetAuthSettingsSlot,
         GetBackupConfigurationSlot, GetDiagnosticLogsConfigurationSlot],
        Errorf ''reading logs configuration for Linux %s: %+v'')
     else if failed (r_GetConfigurationSlot env) then
       ([GetSlot, ListApplicationSettingsSlot, ListConnectionStringsSlot,
         ListPublishingCredentialsSlot, WaitForCompletionRef, GetAuthSettingsSlot,
         GetBackupConfigurationSlot, GetDiagnosticLogsConfigurationSlot, GetConfigurationSlot],
        Errorf ''making Read request on AzureRM Function App Configuration %q: %+v'')
     else
       ([GetSlot, ListApplicationSettingsSlot, ListConnectionStringsSlot,
         ListPublishingCredentialsSlot, WaitForCompletionRef, GetAuthSettingsSlot,
         GetBackupConfigurationSlot, GetDiagnosticLogsConfigurationSlot, GetConfigurationSlot],
        Read_flatten env props (Read_state env sid (body (r_GetSlot env)) props))))"

section \<open>Delete\<close>

record delete_env =
  d_FunctionAppSlotID :: "FunctionAppSlotId option"
  d_DeleteSlot_failed :: bool

definition Delete :: "delete_env \<Rightarrow> call list \<times> unit outcome" where
  "Delete env =
     (case d_FunctionAppSlotID env of
        None \<Rightarrow> ([], ReturnErr)
      | Some sid \<Rightarrow>
          if d_DeleteSlot_failed env then ([DeleteSlot], Errorf ''deleting Linux %s: %+v'')
          else ([DeleteSlot], Success ()))"

section \<open>Create\<close>

text \<open>\<^verbatim>\<open>strings.ToLower\<close> on the ASCII letters; other bytes are left as they are.\<close>

definition ToLower :: "string \<Rightarrow> string" where
  "ToLower s =
     map (\<lambda>c. case map_of (zip ''ABCDEFGHIJKLMNOPQRSTUVWXYZ'' ''abcdefghijklmnopqrstuvwxyz'') c of
                None \<Rightarrow> c
              | Some l \<Rightarrow> l) s"

text \<open>The conversion \<^verbatim>\<open>int32(x)\<close> of a 64-bit \<^verbatim>\<open>int\<close>: it wraps.\<close>

definition int32 :: "int \<Rightarrow> int" where
  "int32 x = (x + 2 ^ 31) mod 2 ^ 32 - 2 ^ 31"

text \<open>
  \<open>call_then c err msg rest\<close>: issue the remote call \<open>c\<close>; when it fails return the
  wrapped error, otherwise go on with \<open>rest\<close>. \<open>gated\<close> does so only under a condition,
  and \<open>after\<close> puts the calls already issued in front.
\<close>

definition call_then ::
  "call \<Rightarrow> bool \<Rightarrow> string \<Rightarrow> call list \<times> 'a outcome \<Rightarrow> call list \<times> 'a outcome" where
  "call_then c err msg rest = (if err then ([c], Errorf msg) else (c # fst rest, snd rest))"

definition gated ::
  "call \<Rightarrow> bool \<Rightarrow> bool \<Rightarrow> string \<Rightarrow> call list \<times> 'a outcome \<Rightarrow> call list \<times> 'a outcome" where
  "gated c cond err msg rest = (if cond then call_then c err msg rest else rest)"

definition after :: "call list \<Rightarrow> call list \<times> 'a outcome \<Rightarrow> call list \<times> 'a outcome" where
  "after t r = (t @ fst r, snd r)"

record create_env = adapter_env +
  c_Decode :: "LinuxFunctionAppSlotModel option"
  c_SubscriptionId :: string
  c_Get :: "web_Site response"
  c_ServicePlanGet :: "AppServicePlan response"
  c_GetSlot :: "web_Site response"
  c_AppServiceEnvironmentGet :: "AppServiceEnvironmentResource response"
  c_CheckNameAvailability ::
    "ResourceNameAvailabilityRequest \<Rightarrow> ResourceNameAvailability response"
  uuid_suffix :: string
  c_CreateOrUpdateSlot_failed :: bool
  c_WaitForCompletionRef_failed :: bool
  c_CreateOrUpdateSlot2_failed :: bool
  c_WaitForCompletionRef2_failed :: bool
  c_UpdateBackupConfigurationSlot_failed :: bool
  c_UpdateAuthSettingsSlot_failed :: bool
  c_UpdateConnectionStringsSlot_failed :: bool
  c_UpdateDiagnosticLogsConfigSlot_failed :: bool

text \<open>The \<^verbatim>\<open>switch\<close> on the lower-cased tier of the plan that sets \<^verbatim>\<open>sendContentSettings\<close>.\<close>

definition plan_sendContentSettings :: "bool \<Rightarrow> string \<Rightarrow> bool" where
  "plan_sendContentSettings forceDisableContentShare tier =
     (if ToLower tier = ''dynamic'' then False
      else if ToLower tier = ''elastic'' then \<not> forceDisableContentShare
      else if ToLower tier = ''basic'' then False
      else if ToLower tier = ''standard'' then False
      else if ToLower tier = ''premiumv2'' \<or> ToLower tier = ''premiumv3'' then False
      else \<not> forceDisableContentShare)"

text \<open>
  The suffix of the FQDN for the name availability request. The source formats
  \<^verbatim>\<open>aseId.HostingEnvironmentName\<close> before it looks at the error of the parse, so a failed
  parse (a nil \<^verbatim>\<open>aseId\<close>) is a nil dereference: \<open>None\<close>.
\<close>

definition Create_nameSuffix ::
  "'a create_env_scheme \<Rightarrow> HostingEnvironmentProfile \<Rightarrow> call list \<times> string option" where
  "Create_nameSuffix env ase =
     (case hep_ID ase of
        None \<Rightarrow> ([], Some ''appserviceenvironment.net'')
      | Some aseIdString \<Rightarrow>
          (case parse_AppServiceEnvironmentID env aseIdString of
             None \<Rightarrow> ([], None)
           | Some aseId \<Rightarrow>
               (let fallback = HostingEnvironmentName aseId @ ''.'' @ ''appserviceenvironment.net''
                in if failed (c_AppServiceEnvironmentGet env)
                   then ([AppServiceEnvironmentGet], Some fallback)
                   else (case ase_AppServiceEnvironment (body (c_AppServiceEnvironmentGet env)) of
                           None \<Rightarrow> ([AppServiceEnvironmentGet], Some fallback)
                         | Some props \<Rightarrow>
                             (case DNSSuffix props of
                                None \<Rightarrow> ([AppServiceEnvironmentGet], Some fallback)
                              | Some suffix \<Rightarrow>
                                  if suffix \<noteq> [] then ([AppServiceEnvironmentGet], Some suffix)
                                  else ([AppServiceEnvironmentGet], Some fallback))))))"

definition Create_availabilityRequest ::
  "'a create_env_scheme \<Rightarrow> LinuxFunctionAppSlotModel \<Rightarrow> FunctionAppSlotId \<Rightarrow> AppServicePlan \<Rightarrow>
   call list \<times> ResourceNameAvailabilityRequest option" where
  "Create_availabilityRequest env functionAppSlot sid servicePlan =
     (case plan_HostingEnvironmentProfile servicePlan of
        None \<Rightarrow>
          ([], Some \<lparr> ar_Name = Some (SiteName sid @ ''-'' @ SlotName sid), ar_IsFqdn = None \<rparr>)
      | Some ase \<Rightarrow>
          (case snd (Create_nameSuffix env ase) of
             None \<Rightarrow> (fst (Create_nameSuffix env ase), None)
           | Some nameSuffix \<Rightarrow>
               (fst (Create_nameSuffix env ase),
                Some \<lparr> ar_Name = Some (Name functionAppSlot @ ''.'' @ nameSuffix),
                       ar_IsFqdn = Some True \<rparr>)))"

text \<open>The storage string, built the same way by \<^verbatim>\<open>Create\<close> and \<^verbatim>\<open>Update\<close>.\<close>

definition storageString :: "'a adapter_env_scheme \<Rightarrow> LinuxFunctionAppSlotModel \<Rightarrow> string" where
  "storageString env st =
     (if \<not> StorageUsesMSI st then
        (if StorageKeyVaultSecretID st \<noteq> [] then StorageStringFmtKV env (StorageKeyVaultSecretID st)
         else StorageStringFmt env (StorageAccountName st) (StorageAccountKey st)
                (StorageEndpointSuffix env))
      else StorageAccountName st)"

text \<open>\<^verbatim>\<open>make(map[string]string)\<close> when the map is nil.\<close>

definition make_if_nil :: "string_map \<Rightarrow> (string \<rightharpoonup> string)" where
  "make_if_nil a = (case a of None \<Rightarrow> Map.empty | Some t \<Rightarrow> t)"

text \<open>
  The application settings that \<^verbatim>\<open>Create\<close> synthesizes into the user's map: first the
  built-in logging block, then the content settings block (\<open>suffix\<close> is the first four
  characters of a fresh UUID).
\<close>

definition Create_builtinLogging :: "LinuxFunctionAppSlotModel \<Rightarrow> string \<Rightarrow> string_map" where
  "Create_builtinLogging st storage =
     (if BuiltinLogging st then
        (if \<not> StorageUsesMSI st
         then Some ((make_if_nil (AppSettings st))(''AzureWebJobsDashboard'' \<mapsto> storage))
         else Some ((make_if_nil (AppSettings st))
                (''AzureWebJobsDashboard__accountName'' \<mapsto> StorageAccountName st)))
      else AppSettings st)"

definition Create_contentSettings ::
  "bool \<Rightarrow> string \<Rightarrow> string \<Rightarrow> string \<Rightarrow> string_map \<Rightarrow> string_map" where
  "Create_contentSettings sendContentSettings name suffix storage a =
     (if sendContentSettings then
        (let t = make_if_nil a;
             t1 = (if t ''WEBSITE_CONTENTSHARE'' = None
                   then t(''WEBSITE_CONTENTSHARE'' \<mapsto> ToLower name @ ''-'' @ suffix) else t);
             t2 = (if t1 ''WEBSITE_CONTENTAZUREFILECONNECTIONSTRING'' = None
                   then t1(''WEBSITE_CONTENTAZUREFILECONNECTIONSTRING'' \<mapsto> storage) else t1)
         in Some t2)
      else a)"

definition Create_AppSettings ::
  "LinuxFunctionAppSlotModel \<Rightarrow> bool \<Rightarrow> string \<Rightarrow> string \<Rightarrow> string_map" where
  "Create_AppSettings st sendContentSettings storage suffix =
     Create_contentSettings sendContentSettings (Name st) suffix storage
       (Create_builtinLogging st storage)"

definition Create_siteEnvelope ::
  "'a create_env_scheme \<Rightarrow> LinuxFunctionAppSlotModel \<Rightarrow> web_Site \<Rightarrow> ServicePlanId \<Rightarrow>
   web_SiteConfig \<Rightarrow> ManagedServiceIdentity option \<Rightarrow> web_Site" where
  "Create_siteEnvelope env st functionApp servicePlanId siteConfig expandedIdentity =
     \<lparr> site_Location = site_Location functionApp,
       site_Tags = FromTypedObject env (Tags st),
       site_Kind = Some ''functionapp,linux'',
       site_Identity = expandedIdentity,
       SiteProperties = Some
         \<lparr> sp_Enabled = Some (Enabled st),
           sp_HTTPSOnly = Some (HttpsOnly st),
           sp_ClientCertEnabled = Some (ClientCertEnabled st),
           sp_ClientCertMode = ClientCertMode st,
           sp_DailyMemoryTimeQuota = Some (int32 (DailyMemoryTimeQuota st)),
           sp_KeyVaultReferenceIdentity =
             (if KeyVaultReferenceIdentityID st \<noteq> [] then Some (KeyVaultReferenceIdentityID st)
              else None),
           sp_CustomDomainVerificationID = None,
           sp_DefaultHostName = None,
           sp_ServerFarmID = Some (ServicePlanId_ID env servicePlanId),
           sp_SiteConfig = Some siteConfig \<rparr> \<rparr>"

text \<open>The dependent sub-resource calls at the end of \<^verbatim>\<open>Create\<close>.\<close>

definition Create_subresources ::
  "'a create_env_scheme \<Rightarrow> LinuxFunctionAppSlotModel \<Rightarrow> FunctionAppSlotId \<Rightarrow>
   call list \<times> FunctionAppSlotId outcome" where
  "Create_subresources env st sid =
     gated UpdateBackupConfigurationSlot (ExpandBackupConfig env (Backup st) \<noteq> None)
       (c_UpdateBackupConfigurationSlot_failed env) ''adding Backup Settings for Linux %s: %+v''
    (gated UpdateAuthSettingsSlot (ExpandAuthSettings env (AuthSettings st) \<noteq> None)
       (c_UpdateAuthSettingsSlot_failed env) ''setting Authorisation Settings for Linux %s: %+v''
    (gated UpdateConnectionStringsSlot (ExpandConnectionStrings env (ConnectionStrings st) \<noteq> None)
       (c_UpdateConnectionStringsSlot_failed env) ''setting Connection Strings for Linux %s: %+v''
    (gated UpdateDiagnosticLogsConfigSlot (GetOk env ''site_config.0.app_service_logs'')
       (c_UpdateDiagnosticLogsConfigSlot_failed env) ''updating App Service Log Settings for %s: %+v''
       ([], Success sid))))"

text \<open>
  \<^verbatim>\<open>Create\<close> once the existence check has found no slot: the name availability
  check, the expansion of the fields, the two full-document PUTs and the sub-resource
  calls.
\<close>

definition Create_new ::
  "'a create_env_scheme \<Rightarrow> LinuxFunctionAppSlotModel \<Rightarrow> FunctionAppSlotId \<Rightarrow> web_Site \<Rightarrow>
   ServicePlanId \<Rightarrow> AppServicePlan \<Rightarrow> bool \<Rightarrow> call list \<times> FunctionAppSlotId outcome" where
  "Create_new env functionAppSlot sid functionApp servicePlanId servicePlan sendContentSettings =
     (case snd (Create_availabilityRequest env functionAppSlot sid servicePlan) of
        None \<Rightarrow>
          (fst (Create_availabilityRequest env functionAppSlot sid servicePlan),
           Panic ''nil pointer dereference'')
      | Some availabilityRequest \<Rightarrow>
     after (fst (Create_availabilityRequest env functionAppSlot sid servicePlan))
     (if failed (c_CheckNameAvailability env availabilityRequest) then
        ([CheckNameAvailability], Errorf ''checking name availability for Linux %s: %+v'')
      else if NameAvailable (body (c_CheckNameAvailability env availabilityRequest)) = Some False then
        (case Message (body (c_CheckNameAvailability env availabilityRequest)) of
           None \<Rightarrow> ([CheckNameAvailability], Panic ''nil pointer dereference'')
         | Some msg \<Rightarrow>
             ([CheckNameAvailability],
              Errorf ''the Site Name %q failed the availability check: %+v''))
      else after [CheckNameAvailability]
     (case ExpandSiteConfigLinuxFunctionAppSlot env (SiteConfig functionAppSlot) None
             (FunctionExtensionsVersion functionAppSlot) (storageString env functionAppSlot)
             (StorageUsesMSI functionAppSlot) of
        (expanded, True) \<Rightarrow> ([], Errorf ''expanding site_config for Linux %s: %+v'')
      | (expanded, False) \<Rightarrow>
     (case SiteConfig functionAppSlot of
        [] \<Rightarrow> ([], Panic ''index out of range'')
      | sc0 # rest \<Rightarrow>
     (case expanded of
        None \<Rightarrow> ([], Panic ''nil pointer dereference'')
      | Some siteConfig0 \<Rightarrow>
     (case expandIdentity env of
        None \<Rightarrow> ([], Errorf ''expanding `identity`: %+v'')
      | Some expandedIdentity \<Rightarrow>
     (let siteConfig = siteConfig0
            \<lparr> sc_LinuxFxVersion := EncodeFunctionAppLinuxFxVersion env (ApplicationStack sc0),
              sc_AppSettings := MergeUserAppSettings env (sc_AppSettings siteConfig0)
                 (Create_AppSettings functionAppSlot sendContentSettings
                    (storageString env functionAppSlot) (uuid_suffix env)) \<rparr>;
          siteEnvelope = Create_siteEnvelope env functionAppSlot functionApp servicePlanId
                           siteConfig expandedIdentity
      in call_then (CreateOrUpdateSlot siteEnvelope) (c_CreateOrUpdateSlot_failed env)
           ''creating Linux %s: %+v''
        (call_then WaitForCompletionRef (c_WaitForCompletionRef_failed env)
           ''waiting for creation of Linux %s: %+v''
        (call_then (CreateOrUpdateSlot siteEnvelope) (c_CreateOrUpdateSlot2_failed env)
           ''updating properties of Linux %s: %+v''
        (call_then WaitForCompletionRef (c_WaitForCompletionRef2_failed env)
           ''waiting for creation of Linux %s: %+v''
        (Create_subresources env functionAppSlot sid)))))))))))"

definition Create :: "'a create_env_scheme \<Rightarrow> call list \<times> FunctionAppSlotId outcome" where
  "Create env =
     (case c_Decode env of
        None \<Rightarrow> ([], ReturnErr)
      | Some functionAppSlot \<Rightarrow>
     (case parse_FunctionAppID env (FunctionAppID functionAppSlot) of
        None \<Rightarrow> ([], ReturnErr)
      | Some functionAppId \<Rightarrow>
     (let sid = \<lparr> SubscriptionId = c_SubscriptionId env,
                  ResourceGroup = fa_ResourceGroup functionAppId,
                  SiteName = fa_SiteName functionAppId,
                  SlotName = Name functionAppSlot \<rparr>
      in
     if failed (c_Get env) then ([Get], Errorf ''retrieving parent Linux %s: %+v'')
     else if site_Location (body (c_Get env)) = None then
       ([Get], Errorf ''could not determine location for %s: %+v'')
     else
     (case SiteProperties (body (c_Get env)) of
        None \<Rightarrow> ([Get], Errorf ''could not determine Service Plan ID for %s: %+v'')
      | Some props \<Rightarrow>
     (case sp_ServerFarmID props of
        None \<Rightarrow> ([Get], Errorf ''could not determine Service Plan ID for %s: %+v'')
      | Some serverFarmID \<Rightarrow>
     (case parse_ServicePlanID env serverFarmID of
        None \<Rightarrow> ([Get], ReturnErr)
      | Some servicePlanId \<Rightarrow>
     if failed (c_ServicePlanGet env) then ([Get, ServicePlanGet], Errorf ''reading %s: %+v'')
     else
     (case Sku (body (c_ServicePlanGet env)) of
        None \<Rightarrow> ([Get, ServicePlanGet], Errorf ''determining plan type for Linux %s: %v'')
      | Some planSku \<Rightarrow>
     (case Tier planSku of
        None \<Rightarrow> ([Get, ServicePlanGet], Errorf ''determining plan type for Linux %s: %v'')
      | Some tier \<Rightarrow>
     if failed (c_GetSlot env) \<and> \<not> not_found (c_GetSlot env) then
       ([Get, ServicePlanGet, GetSlot],
        Errorf ''checking for presence of existing Linux %s: %+v'')
     else if \<not> not_found (c_GetSlot env) then
       ([Get, ServicePlanGet, GetSlot], ResourceRequiresImport)
     else
       after [Get, ServicePlanGet, GetSlot]
         (Create_new env functionAppSlot sid (body (c_Get env)) servicePlanId
            (body (c_ServicePlanGet env))
            (plan_sendContentSettings (ForceDisableContentShare functionAppSlot) tier))))))))))"

section \<open>Update\<close>

text \<open>
  \<open>u_ServicePlanInfoForApp\<close> is \<open>None\<close> when the helper returns an error, otherwise the
  plan SKU it returns.
\<close>

record update_env = adapter_env +
  u_FunctionAppSlotID :: "FunctionAppSlotId option"
  u_Decode :: "LinuxFunctionAppSlotModel option"
  u_GetSlot :: "web_Site response"
  u_ServicePlanInfoForApp :: "string option option"
  u_ListApplicationSettings :: "StringDictionary response"
  u_CreateOrUpdateSlot_failed :: bool
  u_WaitForCompletionRef_failed :: bool
  u_UpdateConfigurationSlot_failed :: bool
  u_UpdateConnectionStringsSlot_failed :: bool
  u_UpdateAuthSettingsSlot_failed :: bool
  u_DeleteBackupConfigurationSlot_failed :: bool
  u_UpdateBackupConfigurationSlot_failed :: bool
  u_UpdateDiagnosticLogsConfigSlot_failed :: bool

text \<open>
  An assignment to a field of \<^verbatim>\<open>existing.SiteProperties\<close> (also through the promoted
  fields of the embedded pointer); \<open>None\<close> is the nil dereference.
\<close>

definition set_props ::
  "(web_SiteProperties \<Rightarrow> web_SiteProperties) \<Rightarrow> web_Site \<Rightarrow> web_Site option" where
  "set_props f site =
     (case SiteProperties site of
        None \<Rightarrow> None
      | Some props \<Rightarrow> Some (site\<lparr>SiteProperties := Some (f props)\<rparr>))"

definition when_changed ::
  "'a adapter_env_scheme \<Rightarrow> string \<Rightarrow> (web_Site \<Rightarrow> web_Site option) \<Rightarrow> web_Site \<Rightarrow> web_Site option" where
  "when_changed env key f site = (if HasChange env key then f site else Some site)"

text \<open>The first four \<^verbatim>\<open>HasChange\<close> blocks of \<^verbatim>\<open>Update\<close>.\<close>

definition Update_properties ::
  "'a adapter_env_scheme \<Rightarrow> LinuxFunctionAppSlotModel \<Rightarrow> web_Site \<Rightarrow> web_Site option" where
  "Update_properties env state existing =
     Option.bind (when_changed env ''enabled''
        (set_props (\<lambda>p. p\<lparr>sp_Enabled := Some (Enabled state)\<rparr>)) existing) (\<lambda>e1.
     Option.bind (when_changed env ''https_only''
        (set_props (\<lambda>p. p\<lparr>sp_HTTPSOnly := Some (HttpsOnly state)\<rparr>)) e1) (\<lambda>e2.
     Option.bind (when_changed env ''client_certificate_enabled''
        (set_props (\<lambda>p. p\<lparr>sp_ClientCertEnabled := Some (ClientCertEnabled state)\<rparr>)) e2) (\<lambda>e3.
     when_changed env ''client_certificate_mode''
        (set_props (\<lambda>p. p\<lparr>sp_ClientCertMode := ClientCertMode state\<rparr>)) e3)))"

text \<open>
  The built-in logging block of \<^verbatim>\<open>Update\<close>. The map is only made when the storage does
  not use the managed identity; \<open>None\<close> is the assignment to an entry of a nil map.
\<close>

definition Update_builtinLogging ::
  "LinuxFunctionAppSlotModel \<Rightarrow> string \<Rightarrow> string_map option" where
  "Update_builtinLogging state storage =
     (if BuiltinLogging state then
        (if \<not> StorageUsesMSI state
         then Some (Some ((make_if_nil (AppSettings state))(''AzureWebJobsDashboard'' \<mapsto> storage)))
         else (case AppSettings state of
                 None \<Rightarrow> None
               | Some t \<Rightarrow>
                   Some (Some (t(''AzureWebJobsDashboard__accountName'' \<mapsto> StorageAccountName state)))))
      else Some (AppSettings state))"

text \<open>The dependent sub-resource calls at the end of \<^verbatim>\<open>Update\<close>.\<close>

definition Update_subresources ::
  "'a update_env_scheme \<Rightarrow> LinuxFunctionAppSlotModel \<Rightarrow> call list \<times> unit outcome" where
  "Update_subresources env state =
     gated UpdateConnectionStringsSlot (HasChange env ''connection_string'')
       (u_UpdateConnectionStringsSlot_failed env) ''updating Connection Strings for Linux %s: %+v''
    (gated UpdateAuthSettingsSlot (HasChange env ''auth_settings'')
       (u_UpdateAuthSettingsSlot_failed env) ''updating Auth Settings for Linux %s: %+v''
    (gated DeleteBackupConfigurationSlot
       (HasChange env ''backup'' \<and> ExpandBackupConfig env (Backup state) = None)
       (u_DeleteBackupConfigurationSlot_failed env) ''removing Backup Settings for Linux %s: %+v''
    (gated UpdateBackupConfigurationSlot
       (HasChange env ''backup'' \<and> ExpandBackupConfig env (Backup state) \<noteq> None)
       (u_UpdateBackupConfigurationSlot_failed env) ''updating Backup Settings for Linux %s: %+v''
    (if HasChange env ''site_config.0.app_service_logs'' then
       (case SiteConfig state of
          [] \<Rightarrow> ([], Panic ''index out of range'')
        | sc0 # rest \<Rightarrow>
            call_then UpdateDiagnosticLogsConfigSlot (u_UpdateDiagnosticLogsConfigSlot_failed env)
              ''updating App Service Log Settings for %s: %+v'' ([], Success ()))
     else ([], Success ())))))"

text \<open>
  \<^verbatim>\<open>Update\<close> from the expansion of the site configuration on. The error of the
  expansion is looked at only inside the \<^verbatim>\<open>HasChange("site_config")\<close> block. When
  that block runs, \<^verbatim>\<open>existing.SiteConfig\<close> and \<^verbatim>\<open>siteConfig\<close> are one pointer; the model
  keeps the envelope of the PUT, and the later \<^verbatim>\<open>UpdateConfigurationSlot\<close> call carries no
  payload here, so the sharing changes nothing.
\<close>

definition Update_send ::
  "'a update_env_scheme \<Rightarrow> LinuxFunctionAppSlotModel \<Rightarrow> web_Site \<Rightarrow> call list \<times> unit outcome" where
  "Update_send env state existing =
     (case SiteProperties existing of
        None \<Rightarrow> ([], Panic ''nil pointer dereference'')
      | Some props \<Rightarrow>
     (case ExpandSiteConfigLinuxFunctionAppSlot env (SiteConfig state) (sp_SiteConfig props)
             (FunctionExtensionsVersion state) (storageString env state) (StorageUsesMSI state) of
        (siteConfig, err) \<Rightarrow>
     (case Update_builtinLogging state (storageString env state) of
        None \<Rightarrow> ([], Panic ''assignment to entry in nil map'')
      | Some appSettings \<Rightarrow>
     if HasChange env ''site_config'' \<and> err then
       ([], Errorf ''expanding Site Config for Linux %s: %+v'')
     else
     (case (if HasChange env ''site_config.0.application_stack'' then
              (case SiteConfig state of
                 [] \<Rightarrow> Inl ''index out of range''
               | sc0 # rest \<Rightarrow>
                   (case (if HasChange env ''site_config'' then siteConfig else sp_SiteConfig props) of
                      None \<Rightarrow> Inl ''nil pointer dereference''
                    | Some c \<Rightarrow>
                        Inr (Some (c\<lparr>sc_LinuxFxVersion :=
                          EncodeFunctionAppLinuxFxVersion env (ApplicationStack sc0)\<rparr>))))
            else Inr (if HasChange env ''site_config'' then siteConfig else sp_SiteConfig props)) of
        Inl panic \<Rightarrow> ([], Panic panic)
      | Inr existingSiteConfig \<Rightarrow>
     (case siteConfig of
        None \<Rightarrow> ([], Panic ''nil pointer dereference'')
      | Some expanded \<Rightarrow>
     (case existingSiteConfig of
        None \<Rightarrow> ([], Panic ''nil pointer dereference'')
      | Some existingSiteConfig' \<Rightarrow>
     (let existing' = existing\<lparr>SiteProperties := Some (props\<lparr>sp_SiteConfig := Some
             (existingSiteConfig'\<lparr>sc_AppSettings :=
                MergeUserAppSettings env (sc_AppSettings expanded) appSettings\<rparr>)\<rparr>)\<rparr>
      in call_then (CreateOrUpdateSlot existing') (u_CreateOrUpdateSlot_failed env)
           ''updating Linux %s: %+v''
        (call_then WaitForCompletionRef (u_WaitForCompletionRef_failed env)
           ''waiting to update %s: %+v''
        (call_then UpdateConfigurationSlot (u_UpdateConfigurationSlot_failed env)
           ''updating Site Config for Linux %s: %+v''
        (Update_subresources env (state\<lparr>AppSettings := appSettings\<rparr>)))))))))))"

text \<open>
  \<^verbatim>\<open>Update\<close> after the plan lookup: the change-set blocks on the fetched slot, the
  storage string and the content settings.
\<close>

definition Update_apply ::
  "'a update_env_scheme \<Rightarrow> LinuxFunctionAppSlotModel \<Rightarrow> web_Site \<Rightarrow> bool \<Rightarrow>
   call list \<times> unit outcome" where
  "Update_apply env state existing sendContentSettings =
     (case Update_properties env state existing of
        None \<Rightarrow> ([], Panic ''nil pointer dereference'')
      | Some e1 \<Rightarrow>
     (case (if HasChange env ''identity'' then
              (case expandIdentity env of
                 None \<Rightarrow> None
               | Some expandedIdentity \<Rightarrow> Some (e1\<lparr>site_Identity := expandedIdentity\<rparr>))
            else Some e1) of
        None \<Rightarrow> ([], Errorf ''expanding `identity`: %+v'')
      | Some e2 \<Rightarrow>
     (case when_changed env ''key_vault_reference_identity_id''
             (set_props (\<lambda>p. p\<lparr>sp_KeyVaultReferenceIdentity := Some (KeyVaultReferenceIdentityID state)\<rparr>))
             e2 of
        None \<Rightarrow> ([], Panic ''nil pointer dereference'')
      | Some e3 \<Rightarrow>
     (let e4 = (if HasChange env ''tags''
                then e3\<lparr>site_Tags := FromTypedObject env (Tags state)\<rparr> else e3)
      in
     if sendContentSettings then
       (if failed (u_ListApplicationSettings env) then
          ([ListApplicationSettings], Errorf ''reading App Settings for Windows %s: %+v'')
        else after [ListApplicationSettings]
          (Update_send env
             (state\<lparr>AppSettings := ParseContentSettings env (body (u_ListApplicationSettings env))
                                      (Some (make_if_nil (AppSettings state)))\<rparr>) e4))
     else Update_send env state e4))))"

definition Update :: "'a update_env_scheme \<Rightarrow> call list \<times> unit outcome" where
  "Update env =
     (case u_FunctionAppSlotID env of
        None \<Rightarrow> ([], ReturnErr)
      | Some sid \<Rightarrow>
     (case u_Decode env of
        None \<Rightarrow> ([], Errorf ''decoding: %+v'')
      | Some state \<Rightarrow>
     if failed (u_GetSlot env) then ([GetSlot], Errorf ''reading Linux %s: %v'')
     else
     (case u_ServicePlanInfoForApp env of
        None \<Rightarrow> ([GetSlot, ServicePlanInfoForApp], ReturnErr)
      | Some planSKU \<Rightarrow>
          after [GetSlot, ServicePlanInfoForApp]
            (Update_apply env state (body (u_GetSlot env)) (\<not> PlanIsElastic env planSKU)))))"

section \<open>Reading the maps\<close>

text \<open>Reading a key of a Go map: a nil map reads as an empty one.\<close>

definition lookup :: "string_map \<Rightarrow> string \<Rightarrow> string option" where
  "lookup a k = (case a of None \<Rightarrow> None | Some t \<Rightarrow> t k)"




section \<open>The answers an operation consumes\<close>





section \<open>Example runs\<close>

text \<open>
  Concrete collaborators, used to run the operations: a slot \<open>stage\<close> of the function
  app \<open>app\<close>, whose storage account \<open>acct1\<close> is reached with the managed identity.
\<close>

definition example_slot_id :: FunctionAppSlotId where
  "example_slot_id =
     \<lparr> SubscriptionId = ''sub'', ResourceGroup = ''rg'', SiteName = ''app'', SlotName = ''stage'' \<rparr>"

definition example_site :: web_Site where
  "example_site =
     \<lparr> site_Location = Some ''westeurope'', site_Tags = None,
       site_Kind = Some ''functionapp,linux'', site_Identity = None,
       SiteProperties = Some
         \<lparr> sp_Enabled = Some True, sp_HTTPSOnly = Some False, sp_ClientCertEnabled = None,
           sp_ClientCertMode = ''Optional'', sp_DailyMemoryTimeQuota = None,
           sp_KeyVaultReferenceIdentity = None, sp_CustomDomainVerificationID = None,
           sp_DefaultHostName = None, sp_ServerFarmID = Some ''plan-id'',
           sp_SiteConfig = Some \<lparr> sc_AppSettings = None, sc_LinuxFxVersion = None \<rparr> \<rparr> \<rparr>"

definition example_site_config :: SiteConfigLinuxFunctionAppSlot where
  "example_site_config =
     \<lparr> ApplicationStack = [], AppInsightsInstrumentationKey = [],
       AppInsightsConnectionString = [], HealthCheckEvictionTime = 0, LinuxFxVersion = [],
       AppServiceLogs = [] \<rparr>"

definition example_model :: LinuxFunctionAppSlotModel where
  "example_model =
     zero_LinuxFunctionAppSlotModel
       \<lparr> Name := ''stage'', FunctionAppID := ''app-id'', StorageAccountName := ''acct1'',
         StorageUsesMSI := True, BuiltinLogging := True, Enabled := True,
         FunctionExtensionsVersion := ''~4'', SiteConfig := [example_site_config] \<rparr>"

definition example_read_env :: read_env where
  "example_read_env =
     \<lparr>
       GetOk = (\<lambda>key. False),
       HasChange = (\<lambda>key. key = ''tags''),
       ParseWebJobsStorageString = (\<lambda>v. ([], [])),
       DecodeFunctionAppDockerFxString = (\<lambda>fx d. ([], True)),
       FlattenSiteConfigLinuxFunctionAppSlot = (\<lambda>c. Some example_site_config),
       FlattenConnectionStrings = (\<lambda>x. []),
       FlattenSiteCredentials = (\<lambda>x. []),
       FlattenAuthSettings = (\<lambda>x. []),
       FlattenBackupConfig = (\<lambda>x. []),
       FlattenFunctionAppAppServiceLogs = (\<lambda>x. []),
       NewFunctionAppID_ID = (\<lambda>sub rg site. ''/subscriptions/'' @ sub @ ''/resourceGroups/'' @ rg @ ''/sites/'' @ site),
       ToTypedObject = (\<lambda>t. None),
       FromTypedObject = (\<lambda>t. None),
       StorageStringFmtKV = (\<lambda>secret. ''@Microsoft.KeyVault(SecretUri='' @ secret @ '')''),
       StorageStringFmt = (\<lambda>name key suffix. ''AccountName='' @ name @ '';AccountKey='' @ key @ '';EndpointSuffix='' @ suffix),
       StorageEndpointSuffix = ''core.windows.net'',
       ExpandSiteConfigLinuxFunctionAppSlot =
         (\<lambda>cfg existing version storage msi.
            (Some \<lparr> sc_AppSettings = Some [], sc_LinuxFxVersion = None \<rparr>, False)),
       EncodeFunctionAppLinuxFxVersion = (\<lambda>stack. Some []),
       MergeUserAppSettings = (\<lambda>base user. base),
       ParseContentSettings = (\<lambda>resp existing. existing),
       ExpandBackupConfig = (\<lambda>b. None),
       ExpandAuthSettings = (\<lambda>a. None),
       ExpandConnectionStrings = (\<lambda>c. None),
       expandIdentity = Some None,
       PlanIsElastic = (\<lambda>sku. sku = Some ''EP1''),
       parse_FunctionAppID =
         (\<lambda>i. if i = ''app-id'' then Some \<lparr> fa_ResourceGroup = ''rg'', fa_SiteName = ''app'' \<rparr> else None),
       parse_ServicePlanID =
         (\<lambda>i. if i = ''plan-id'' then Some \<lparr> plan_ResourceGroup = ''rg'', ServerfarmName = ''plan'' \<rparr> else None),
       ServicePlanId_ID = (\<lambda>i. ''plan-id''),
       parse_AppServiceEnvironmentID =
         (\<lambda>i. if i = ''ase-id'' then Some \<lparr> ase_ResourceGroup = ''rg'', HostingEnvironmentName = ''ase'' \<rparr> else None),
       FunctionAppSlotID = Some example_slot_id,
       r_GetSlot = \<lparr> failed = False, not_found = False, body = example_site \<rparr>,
       r_ListApplicationSettingsSlot =
         \<lparr> failed = False, not_found = False,
           body = \<lparr> Properties = Some
             [(''WEBSITE_HEALTHCHECK_MAXPINGFAILURES'', Some ''abc''),
              (''DOCKER_REGISTRY_SERVER_URL'', Some ''https://registry.example''),
              (''MY_KEY'', Some ''v'')] \<rparr> \<rparr>,
       r_ListConnectionStringsSlot = \<lparr> failed = False, not_found = False, body = undefined \<rparr>,
       r_ListPublishingCredentialsSlot_failed = False,
       r_WaitForCompletionRef_failed = False,
       r_Result = \<lparr> failed = False, not_found = False, body = undefined \<rparr>,
       r_GetAuthSettingsSlot = \<lparr> failed = False, not_found = False, body = undefined \<rparr>,
       r_GetBackupConfigurationSlot = \<lparr> failed = True, not_found = True, body = undefined \<rparr>,
       r_GetDiagnosticLogsConfigurationSlot = \<lparr> failed = False, not_found = False, body = undefined \<rparr>,
       r_GetConfigurationSlot = \<lparr> failed = False, not_found = False, body = None \<rparr>,
       Encode_failed = False,
       flattenIdentity_failed = False,
       Set_identity_failed = False \<rparr>"

definition example_plan :: AppServicePlan where
  "example_plan =
     \<lparr> Sku = Some \<lparr> Tier = Some ''Dynamic'' \<rparr>, plan_HostingEnvironmentProfile = None \<rparr>"

definition example_create_env :: create_env where
  "example_create_env =
     \<lparr>
       GetOk = (\<lambda>key. False),
       HasChange = (\<lambda>key. key = ''tags''),
       ParseWebJobsStorageString = (\<lambda>v. ([], [])),
       DecodeFunctionAppDockerFxString = (\<lambda>fx d. ([], True)),
       FlattenSiteConfigLinuxFunctionAppSlot = (\<lambda>c. Some example_site_config),
       FlattenConnectionStrings = (\<lambda>x. []),
       FlattenSiteCredentials = (\<lambda>x. []),
       FlattenAuthSettings = (\<lambda>x. []),
       FlattenBackupConfig = (\<lambda>x. []),
       FlattenFunctionAppAppServiceLogs = (\<lambda>x. []),
       NewFunctionAppID_ID = (\<lambda>sub rg site. ''/subscriptions/'' @ sub @ ''/resourceGroups/'' @ rg @ ''/sites/'' @ site),
       ToTypedObject = (\<lambda>t. None),
       FromTypedObject = (\<lambda>t. None),
       StorageStringFmtKV = (\<lambda>secret. ''@Microsoft.KeyVault(SecretUri='' @ secret @ '')''),
       StorageStringFmt = (\<lambda>name key suffix. ''AccountName='' @ name @ '';AccountKey='' @ key @ '';EndpointSuffix='' @ suffix),
       StorageEndpointSuffix = ''core.windows.net'',
       ExpandSiteConfigLinuxFunctionAppSlot =
         (\<lambda>cfg existing version storage msi.
            (Some \<lparr> sc_AppSettings = Some [], sc_LinuxFxVersion = None \<rparr>, False)),
       EncodeFunctionAppLinuxFxVersion = (\<lambda>stack. Some []),
       MergeUserAppSettings = (\<lambda>base user. base),
       ParseContentSettings = (\<lambda>resp existing. existing),
       ExpandBackupConfig = (\<lambda>b. None),
       ExpandAuthSettings = (\<lambda>a. None),
       ExpandConnectionStrings = (\<lambda>c. None),
       expandIdentity = Some None,
       PlanIsElastic = (\<lambda>sku. sku = Some ''EP1''),
       parse_FunctionAppID =
         (\<lambda>i. if i = ''app-id'' then Some \<lparr> fa_ResourceGroup = ''rg'', fa_SiteName = ''app'' \<rparr> else None),
       parse_ServicePlanID =
         (\<lambda>i. if i = ''plan-id'' then Some \<lparr> plan_ResourceGroup = ''rg'', ServerfarmName = ''plan'' \<rparr> else None),
       ServicePlanId_ID = (\<lambda>i. ''plan-id''),
       parse_AppServiceEnvironmentID =
         (\<lambda>i. if i = ''ase-id'' then Some \<lparr> ase_ResourceGroup = ''rg'', HostingEnvironmentName = ''ase'' \<rparr> else None),
       c_Decode = Some example_model,
       c_SubscriptionId = ''sub'',
       c_Get = \<lparr> failed = False, not_found = False, body = example_site \<rparr>,
       c_ServicePlanGet = \<lparr> failed = False, not_found = False, body = example_plan \<rparr>,
       c_GetSlot = \<lparr> failed = True, not_found = True, body = example_site \<rparr>,
       c_AppServiceEnvironmentGet =
         \<lparr> failed = True, not_found = False, body = \<lparr> ase_AppServiceEnvironment = None \<rparr> \<rparr>,
       c_CheckNameAvailability =
         (\<lambda>req. \<lparr> failed = False, not_found = False,
                  body = \<lparr> NameAvailable = Some True, Message = None \<rparr> \<rparr>),
       uuid_suffix = ''1a2b'',
       c_CreateOrUpdateSlot_failed = False,
       c_WaitForCompletionRef_failed = False,
       c_CreateOrUpdateSlot2_failed = False,
       c_WaitForCompletionRef2_failed = False,
       c_UpdateBackupConfigurationSlot_failed = False,
       c_UpdateAuthSettingsSlot_failed = False,
       c_UpdateConnectionStringsSlot_failed = False,
       c_UpdateDiagnosticLogsConfigSlot_failed = False \<rparr>"

definition example_update_env :: update_env where
  "example_update_env =
     \<lparr>
       GetOk = (\<lambda>key. False),
       HasChange = (\<lambda>key. key = ''tags''),
       ParseWebJobsStorageString = (\<lambda>v. ([], [])),
       DecodeFunctionAppDockerFxString = (\<lambda>fx d. ([], True)),
       FlattenSiteConfigLinuxFunctionAppSlot = (\<lambda>c. Some example_site_config),
       FlattenConnectionStrings = (\<lambda>x. []),
       FlattenSiteCredentials = (\<lambda>x. []),
       FlattenAuthSettings = (\<lambda>x. []),
       FlattenBackupConfig = (\<lambda>x. []),
       FlattenFunctionAppAppServiceLogs = (\<lambda>x. []),
       NewFunctionAppID_ID = (\<lambda>sub rg site. ''/subscriptions/'' @ sub @ ''/resourceGroups/'' @ rg @ ''/sites/'' @ site),
       ToTypedObject = (\<lambda>t. None),
       FromTypedObject = (\<lambda>t. None),
       StorageStringFmtKV = (\<lambda>secret. ''@Microsoft.KeyVault(SecretUri='' @ secret @ '')''),
       StorageStringFmt = (\<lambda>name key suffix. ''AccountName='' @ name @ '';AccountKey='' @ key @ '';EndpointSuffix='' @ suffix),
       StorageEndpointSuffix = ''core.windows.net'',
       ExpandSiteConfigLinuxFunctionAppSlot =
         (\<lambda>cfg existing version storage msi.
            (Some \<lparr> sc_AppSettings = Some [], sc_LinuxFxVersion = None \<rparr>, False)),
       EncodeFunctionAppLinuxFxVersion = (\<lambda>stack. Some []),
       MergeUserAppSettings = (\<lambda>base user. base),
       ParseContentSettings = (\<lambda>resp existing. existing),
       ExpandBackupConfig = (\<lambda>b. None),
       ExpandAuthSettings = (\<lambda>a. None),
       ExpandConnectionStrings = (\<lambda>c. None),
       expandIdentity = Some None,
       PlanIsElastic = (\<lambda>sku. sku = Some ''EP1''),
       parse_FunctionAppID =
         (\<lambda>i. if i = ''app-id'' then Some \<lparr> fa_ResourceGroup = ''rg'', fa_SiteName = ''app'' \<rparr> else None),
       parse_ServicePlanID =
         (\<lambda>i. if i = ''plan-id'' then Some \<lparr> plan_ResourceGroup = ''rg'', ServerfarmName = ''plan'' \<rparr> else None),
       ServicePlanId_ID = (\<lambda>i. ''plan-id''),
       parse_AppServiceEnvironmentID =
         (\<lambda>i. if i = ''ase-id'' then Some \<lparr> ase_ResourceGroup = ''rg'', HostingEnvironmentName = ''ase'' \<rparr> else None),
       u_FunctionAppSlotID = Some example_slot_id,
       u_Decode = Some (example_model\<lparr>AppSettings := Some Map.empty\<rparr>),
       u_GetSlot = \<lparr> failed = False, not_found = False, body = example_site \<rparr>,
       u_ServicePlanInfoForApp = Some (Some ''EP1''),
       u_ListApplicationSettings =
         \<lparr> failed = False, not_found = False, body = \<lparr> Properties = None \<rparr> \<rparr>,
       u_CreateOrUpdateSlot_failed = False,
       u_WaitForCompletionRef_failed = False,
       u_UpdateConfigurationSlot_failed = False,
       u_UpdateConnectionStringsSlot_failed = False,
       u_UpdateAuthSettingsSlot_failed = False,
       u_DeleteBackupConfigurationSlot_failed = False,
       u_UpdateBackupConfigurationSlot_failed = False,
       u_UpdateDiagnosticLogsConfigSlot_failed = False \<rparr>"

text \<open>The state that \<^verbatim>\<open>Read\<close> encodes in the example run.\<close>

definition example_read_state :: LinuxFunctionAppSlotModel where
  "example_read_state =
     zero_LinuxFunctionAppSlotModel
       \<lparr> Name := ''stage'', FunctionAppID := ''/subscriptions/sub/resourceGroups/rg/sites/app'',
         AppSettings := Some [''MY_KEY'' \<mapsto> ''v''], ClientCertMode := ''Optional'',
         Enabled := True,
         SiteConfig := [example_site_config
                          \<lparr>ApplicationStack := [\<lparr> Docker = [], CustomHandler = False \<rparr>]\<rparr>],
         Kind := ''functionapp,linux'' \<rparr>"

text \<open>A user who has put the dashboard key into \<^verbatim>\<open>app_settings\<close> by hand.\<close>

definition example_model_with_dashboard :: LinuxFunctionAppSlotModel where
  "example_model_with_dashboard =
     example_model\<lparr>AppSettings := Some [''AzureWebJobsDashboard'' \<mapsto> ''UseDevelopmentStorage=true'']\<rparr>"

text \<open>An answer of the auth settings fetch that is a failure with a not-found response.\<close>

definition example_read_env_auth_not_found :: read_env where
  "example_read_env_auth_not_found =
     example_read_env\<lparr>r_GetAuthSettingsSlot := \<lparr> failed = True, not_found = True, body = undefined \<rparr>\<rparr>"

text \<open>A plan inside an App Service Environment whose identifier does not parse.\<close>

definition example_create_env_bad_ase :: create_env where
  "example_create_env_bad_ase =
     example_create_env\<lparr>c_ServicePlanGet :=
       \<lparr> failed = False, not_found = False,
         body = \<lparr> Sku = Some \<lparr> Tier = Some ''Isolated'' \<rparr>,
                  plan_HostingEnvironmentProfile = Some \<lparr> hep_ID = Some ''not-an-ase-id'' \<rparr> \<rparr> \<rparr>\<rparr>"

text \<open>A slot that is already there when \<^verbatim>\<open>Create\<close> looks.\<close>

definition example_create_env_existing :: create_env where
  "example_create_env_existing =
     example_create_env\<lparr>c_GetSlot := \<lparr> failed = False, not_found = False, body = example_site \<rparr>\<rparr>"

text \<open>The same update with no \<^verbatim>\<open>app_settings\<close> configured: the decoded map is nil.\<close>

definition example_update_env_nil_settings :: update_env where
  "example_update_env_nil_settings = example_update_env\<lparr>u_Decode := Some example_model\<rparr>"

text \<open>An update in which every gated field has changed.\<close>

definition example_update_env_all_changed :: update_env where
  "example_update_env_all_changed =
     example_update_env\<lparr>HasChange :=
       (\<lambda>key. key \<in> set [''tags'', ''connection_string'', ''auth_settings'', ''backup'',
                           ''site_config.0.app_service_logs''])\<rparr>"

definition example_delete_env :: delete_env where
  "example_delete_env = \<lparr> d_FunctionAppSlotID = Some example_slot_id, d_DeleteSlot_failed = False \<rparr>"

text \<open>The state into which \<^verbatim>\<open>Read\<close> flattens, and a wire dictionary with a managed key.\<close>

definition example_fresh_state :: LinuxFunctionAppSlotModel where
  "example_fresh_state = zero_LinuxFunctionAppSlotModel\<lparr>SiteConfig := [example_site_config]\<rparr>"

definition example_model_with_retention :: LinuxFunctionAppSlotModel where
  "example_model_with_retention =
     example_model\<lparr>AppSettings := Some [''WEBSITE_HTTPLOGGING_RETENTION_DAYS'' \<mapsto> ''7'']\<rparr>"

definition example_wire_with_retention :: StringDictionary where
  "example_wire_with_retention =
     \<lparr> Properties = Some [(''WEBSITE_HTTPLOGGING_RETENTION_DAYS'', Some ''7''),
                          (''MY_KEY'', Some ''v'')] \<rparr>"

section \<open>Properties of the operations\<close>

lemmas example_defs =
  example_slot_id_def example_site_def example_site_config_def example_model_def
  example_read_env_def example_plan_def example_create_env_def example_update_env_def
  example_read_state_def example_model_with_dashboard_def example_read_env_auth_not_found_def
  example_create_env_bad_ase_def example_create_env_existing_def
  example_update_env_nil_settings_def zero_LinuxFunctionAppSlotModel_def
  example_update_env_all_changed_def example_delete_env_def example_fresh_state_def
  example_model_with_retention_def example_wire_with_retention_def

lemmas run_defs =
  Read_def Read_flatten_def Read_state_def unpackLinuxFunctionAppSettings_def
  unpack_case_def on_m_def set_SiteConfig0_def keep_if_configured_def
  NormalizeNilableString_def NormaliseNilableInt_def NormaliseNilableBool_def
  NormaliseNilableInt32_def Atoi_def Create_def Create_new_def Create_availabilityRequest_def
  Create_nameSuffix_def Create_subresources_def Create_siteEnvelope_def Create_AppSettings_def
  Create_contentSettings_def Create_builtinLogging_def make_if_nil_def storageString_def
  plan_sendContentSettings_def ToLower_def call_then_def gated_def after_def int32_def
  Update_def Update_apply_def Update_send_def Update_subresources_def
  Update_builtinLogging_def Update_properties_def when_changed_def set_props_def
  Delete_def lookup_def

subsection \<open>Sequences of gated calls\<close>

lemma snd_call_then_Success:
  "(snd (call_then c err msg rest) = Success u) = (\<not> err \<and> snd rest = Success u)"
  by (simp add: call_then_def)

lemma snd_gated_Success:
  "(snd (gated c cond err msg rest) = Success u) = ((cond \<longrightarrow> \<not> err) \<and> snd rest = Success u)"
  by (auto simp add: gated_def call_then_def)

lemma in_call_then:
  "x \<in> set (fst (call_then c err msg rest)) \<Longrightarrow> x = c \<or> x \<in> set (fst rest)"
  by (auto simp add: call_then_def split: if_splits)

lemma in_gated:
  "x \<in> set (fst (gated c cond err msg rest)) \<Longrightarrow> (x = c \<and> cond) \<or> x \<in> set (fst rest)"
  by (auto simp add: gated_def call_then_def split: if_splits)

lemma call_then_issued: "c \<in> set (fst (call_then c err msg rest))"
  by (simp add: call_then_def)

lemma call_then_passes: "\<not> err \<Longrightarrow> x \<in> set (fst rest) \<Longrightarrow> x \<in> set (fst (call_then c err msg rest))"
  by (simp add: call_then_def)

lemma gated_issued: "cond \<Longrightarrow> c \<in> set (fst (gated c cond err msg rest))"
  by (simp add: gated_def call_then_def)

lemma gated_passes:
  "cond \<longrightarrow> \<not> err \<Longrightarrow> x \<in> set (fst rest) \<Longrightarrow> x \<in> set (fst (gated c cond err msg rest))"
  by (auto simp add: gated_def call_then_def)

subsection \<open>Create\<close>

text \<open>
  What \<^verbatim>\<open>Create\<close> sends: every envelope of a \<^verbatim>\<open>CreateOrUpdateSlot\<close> call carries the
  merge of the expanded site configuration's settings with the settings synthesized by
  \<open>Create_AppSettings\<close>, under the \<^verbatim>\<open>sendContentSettings\<close> that the tier of the plan
  gives.
\<close>

lemma Create_nameSuffix_calls:
  "x \<in> set (fst (Create_nameSuffix env ase)) \<Longrightarrow> x = AppServiceEnvironmentGet"
  by (auto simp: Create_nameSuffix_def Let_def split: option.splits if_splits)

lemma Create_availabilityRequest_calls:
  "x \<in> set (fst (Create_availabilityRequest env slot sid plan)) \<Longrightarrow> x = AppServiceEnvironmentGet"
  by (auto simp: Create_availabilityRequest_def split: option.splits dest: Create_nameSuffix_calls)

lemma Create_subresources_calls:
  "x \<in> set (fst (Create_subresources env slot sid)) \<Longrightarrow>
     x \<in> {UpdateBackupConfigurationSlot, UpdateAuthSettingsSlot, UpdateConnectionStringsSlot,
          UpdateDiagnosticLogsConfigSlot}"
  unfolding Create_subresources_def by (auto dest!: in_gated)

lemma Create_new_envelope:
  assumes "CreateOrUpdateSlot site \<in> set (fst (Create_new env slot sid functionApp planId plan send))"
  shows "\<exists>props siteConfig expanded.
           SiteProperties site = Some props \<and> sp_SiteConfig props = Some siteConfig \<and>
           fst (ExpandSiteConfigLinuxFunctionAppSlot env (SiteConfig slot) None
                  (FunctionExtensionsVersion slot) (storageString env slot) (StorageUsesMSI slot))
             = Some expanded \<and>
           sc_AppSettings siteConfig =
             MergeUserAppSettings env (sc_AppSettings expanded)
               (Create_AppSettings slot send (storageString env slot) (uuid_suffix env))"
  using assms
  by (auto simp: Create_new_def after_def Let_def Create_siteEnvelope_def
        split: option.splits if_splits prod.splits list.splits bool.splits
        dest!: in_call_then Create_subresources_calls Create_availabilityRequest_calls)

lemma Create_envelope:
  assumes "CreateOrUpdateSlot site \<in> set (fst (Create env))"
  shows "\<exists>slot planSku tier props siteConfig expanded.
           c_Decode env = Some slot \<and> Sku (body (c_ServicePlanGet env)) = Some planSku \<and>
           Tier planSku = Some tier \<and>
           SiteProperties site = Some props \<and> sp_SiteConfig props = Some siteConfig \<and>
           fst (ExpandSiteConfigLinuxFunctionAppSlot env (SiteConfig slot) None
                  (FunctionExtensionsVersion slot) (storageString env slot) (StorageUsesMSI slot))
             = Some expanded \<and>
           sc_AppSettings siteConfig =
             MergeUserAppSettings env (sc_AppSettings expanded)
               (Create_AppSettings slot
                  (plan_sendContentSettings (ForceDisableContentShare slot) tier)
                  (storageString env slot) (uuid_suffix env))"
  using assms
  by (auto simp: Create_def after_def Let_def split: option.splits if_splits
        dest!: Create_new_envelope)

text \<open>
  C2. When the existence check of \<^verbatim>\<open>Create\<close> does not answer not-found, no
  \<^verbatim>\<open>CreateOrUpdateSlot\<close> call is issued, whatever the envelope; and when the check was
  reached, \<^verbatim>\<open>Create\<close> returns the resource-requires-import error if the GET found the
  slot (no error), and the wrapped error of the check if the GET failed otherwise.
\<close>

theorem Create_existing_slot_requires_import:
  "\<not> not_found (c_GetSlot env) \<Longrightarrow>
     CreateOrUpdateSlot site \<notin> set (fst (Create env)) \<and>
     (GetSlot \<in> set (fst (Create env)) \<longrightarrow>
        snd (Create env) =
          (if failed (c_GetSlot env)
           then Errorf ''checking for presence of existing Linux %s: %+v''
           else ResourceRequiresImport))"
  by (simp add: Create_def Let_def split: option.splits)

theorem Create_existing_slot_requires_import_witness:
  "\<not> not_found (c_GetSlot example_create_env_existing) \<and>
   GetSlot \<in> set (fst (Create example_create_env_existing)) \<and>
   CreateOrUpdateSlot example_site \<notin> set (fst (Create example_create_env_existing)) \<and>
   snd (Create example_create_env_existing) = ResourceRequiresImport"
proof -
  have nf: "\<not> not_found (c_GetSlot example_create_env_existing)"
    by (simp add: example_defs)
  have reached: "GetSlot \<in> set (fst (Create example_create_env_existing))"
    by (simp add: example_defs run_defs)
  have ok: "\<not> failed (c_GetSlot example_create_env_existing)"
    by (simp add: example_defs)
  from Create_existing_slot_requires_import [OF nf, of example_site] nf reached ok
  show ?thesis by simp
qed




text \<open>
  C4. When the lower-cased tier of the service plan is \<^verbatim>\<open>dynamic\<close>, the content
  settings are not sent, for both values of \<^verbatim>\<open>content_share_force_disabled\<close>: the
  settings after the synthesis hold under \<^verbatim>\<open>WEBSITE_CONTENTSHARE\<close> and
  \<^verbatim>\<open>WEBSITE_CONTENTAZUREFILECONNECTIONSTRING\<close> exactly what the user's own settings
  hold there, so \<^verbatim>\<open>Create\<close> synthesizes neither.
\<close>

theorem Create_dynamic_plan_no_content_settings:
  "ToLower tier = ''dynamic'' \<Longrightarrow>
   \<not> plan_sendContentSettings forceDisable tier \<and>
   lookup (Create_AppSettings st (plan_sendContentSettings forceDisable tier) storage suffix)
       ''WEBSITE_CONTENTSHARE''
     = lookup (AppSettings st) ''WEBSITE_CONTENTSHARE'' \<and>
   lookup (Create_AppSettings st (plan_sendContentSettings forceDisable tier) storage suffix)
       ''WEBSITE_CONTENTAZUREFILECONNECTIONSTRING''
     = lookup (AppSettings st) ''WEBSITE_CONTENTAZUREFILECONNECTIONSTRING''"
  by (simp add: lookup_def plan_sendContentSettings_def Create_AppSettings_def
        Create_contentSettings_def Create_builtinLogging_def make_if_nil_def
        split: option.splits)

theorem Create_dynamic_plan_no_content_settings_witness:
  "ToLower ''Dynamic'' = ''dynamic'' \<and>
   \<not> plan_sendContentSettings False ''Dynamic'' \<and>
   lookup (Create_AppSettings example_model (plan_sendContentSettings False ''Dynamic'')
             ''acct1'' ''1a2b'') ''WEBSITE_CONTENTSHARE'' = None \<and>
   lookup (Create_AppSettings example_model (plan_sendContentSettings False ''Dynamic'')
             ''acct1'' ''1a2b'') ''WEBSITE_CONTENTAZUREFILECONNECTIONSTRING'' = None"
proof -
  have tier: "ToLower ''Dynamic'' = ''dynamic''"
    by (simp add: ToLower_def)
  have user: "lookup (AppSettings example_model) ''WEBSITE_CONTENTSHARE'' = None"
    "lookup (AppSettings example_model) ''WEBSITE_CONTENTAZUREFILECONNECTIONSTRING'' = None"
    by (simp_all add: example_defs lookup_def)
  from Create_dynamic_plan_no_content_settings
         [OF tier, of False example_model "''acct1''" "''1a2b''"] tier user
  show ?thesis by auto
qed

text \<open>
  C10. When the service plan has a hosting environment profile whose identifier does
  not parse as an App Service Environment identifier, \<^verbatim>\<open>Create\<close> dereferences the nil
  identifier before it looks at the parse error: it panics right after the existence
  check, with no further call.
\<close>

theorem Create_unparsable_ase_id_panics:
  assumes "c_Decode env = Some slot"
    and "parse_FunctionAppID env (FunctionAppID slot) = Some functionAppId"
    and "\<not> failed (c_Get env)"
    and "site_Location (body (c_Get env)) = Some location"
    and "SiteProperties (body (c_Get env)) = Some props"
    and "sp_ServerFarmID props = Some serverFarmID"
    and "parse_ServicePlanID env serverFarmID = Some servicePlanId"
    and "\<not> failed (c_ServicePlanGet env)"
    and "Sku (body (c_ServicePlanGet env)) = Some planSku"
    and "Tier planSku = Some tier"
    and "not_found (c_GetSlot env)"
    and "plan_HostingEnvironmentProfile (body (c_ServicePlanGet env)) = Some ase"
    and "hep_ID ase = Some aseIdString"
    and "parse_AppServiceEnvironmentID env aseIdString = None"
  shows "Create env = ([Get, ServicePlanGet, GetSlot], Panic ''nil pointer dereference'')"
  using assms
  by (simp add: Create_def Create_new_def Create_availabilityRequest_def
        Create_nameSuffix_def after_def Let_def)

theorem Create_unparsable_ase_id_panics_witness:
  "parse_AppServiceEnvironmentID example_create_env_bad_ase ''not-an-ase-id'' = None \<and>
   Create example_create_env_bad_ase =
     ([Get, ServicePlanGet, GetSlot], Panic ''nil pointer dereference'')"
proof -
  have "Create example_create_env_bad_ase =
          ([Get, ServicePlanGet, GetSlot], Panic ''nil pointer dereference'')"
    by (rule Create_unparsable_ase_id_panics
          [where slot = example_model
             and functionAppId = "\<lparr> fa_ResourceGroup = ''rg'', fa_SiteName = ''app'' \<rparr>"
             and location = "''westeurope''"
             and props = "the (SiteProperties example_site)"
             and serverFarmID = "''plan-id''"
             and servicePlanId = "\<lparr> plan_ResourceGroup = ''rg'', ServerfarmName = ''plan'' \<rparr>"
             and planSku = "\<lparr> Tier = Some ''Isolated'' \<rparr>"
             and tier = "''Isolated''"
             and ase = "\<lparr> hep_ID = Some ''not-an-ase-id'' \<rparr>"
             and aseIdString = "''not-an-ase-id''"])
       (simp_all add: example_defs)
  then show ?thesis by (simp add: example_defs)
qed

subsection \<open>Read\<close>

text \<open>
  C6. When the fetch of the primary slot fails, \<^verbatim>\<open>Read\<close> returns the mark-as-gone
  signal if the response was not-found, and the wrapped error of the fetch otherwise.
\<close>

theorem Read_primary_fetch_failure:
  "FunctionAppSlotID env = Some sid \<Longrightarrow> failed (r_GetSlot env) \<Longrightarrow>
   Read env =
     ([GetSlot],
      if not_found (r_GetSlot env) then MarkAsGone else Errorf ''reading Linux %s: %+v'')"
  by (simp add: Read_def)

theorem Read_primary_fetch_failure_witness:
  "Read (example_read_env\<lparr>r_GetSlot := \<lparr> failed = True, not_found = True, body = example_site \<rparr>\<rparr>)
     = ([GetSlot], MarkAsGone) \<and>
   Read (example_read_env\<lparr>r_GetSlot := \<lparr> failed = True, not_found = False, body = example_site \<rparr>\<rparr>)
     = ([GetSlot], Errorf ''reading Linux %s: %+v'')"
proof -
  have gone: "Read (example_read_env\<lparr>r_GetSlot := \<lparr> failed = True, not_found = True, body = example_site \<rparr>\<rparr>)
                = ([GetSlot], MarkAsGone)"
    using Read_primary_fetch_failure
            [of "example_read_env\<lparr>r_GetSlot := \<lparr> failed = True, not_found = True, body = example_site \<rparr>\<rparr>"
                example_slot_id]
    by (simp add: example_read_env_def)
  have other: "Read (example_read_env\<lparr>r_GetSlot := \<lparr> failed = True, not_found = False, body = example_site \<rparr>\<rparr>)
                = ([GetSlot], Errorf ''reading Linux %s: %+v'')"
    using Read_primary_fetch_failure
            [of "example_read_env\<lparr>r_GetSlot := \<lparr> failed = True, not_found = False, body = example_site \<rparr>\<rparr>"
                example_slot_id]
    by (simp add: example_read_env_def)
  from gone other show ?thesis by simp
qed

text \<open>
  The flatten of the application settings reads three collaborators only, so the answer
  of the backup fetch does not reach it.
\<close>

lemma unpack_case_cong:
  assumes "GetOk env' = GetOk env"
    and "ParseWebJobsStorageString env' = ParseWebJobsStorageString env"
  shows "unpack_case env' k v s = unpack_case env k v s"
  unfolding unpack_case_def keep_if_configured_def assms by (rule refl)

lemma unpack_loop_cong:
  assumes "GetOk env' = GetOk env"
    and "ParseWebJobsStorageString env' = ParseWebJobsStorageString env"
  shows "unpack_loop env' props s = unpack_loop env props s"
  by (induction props arbitrary: s)
     (auto simp: unpack_case_cong [OF assms] split: option.splits)

lemma unpack_cong:
  assumes "GetOk env' = GetOk env"
    and "ParseWebJobsStorageString env' = ParseWebJobsStorageString env"
    and "DecodeFunctionAppDockerFxString env' = DecodeFunctionAppDockerFxString env"
  shows "unpackLinuxFunctionAppSettings env' input st = unpackLinuxFunctionAppSettings env input st"
  unfolding unpackLinuxFunctionAppSettings_def unpack_loop_cong [OF assms(1,2)] assms(3)
  by (rule refl)

lemma unpack_backup_update:
  "unpackLinuxFunctionAppSettings (env\<lparr>r_GetBackupConfigurationSlot := x\<rparr>) input st
     = unpackLinuxFunctionAppSettings env input st"
  by (rule unpack_cong) simp_all

lemma set_SiteConfig0_Backup: "set_SiteConfig0 f st = Some st' \<Longrightarrow> Backup st' = Backup st"
  by (auto simp: set_SiteConfig0_def split: list.splits)

lemma example_read_run: "snd (Read example_read_env) = Success example_read_state"
  by (simp add: example_defs run_defs)

text \<open>
  C5, as amended. Only the backup fetch tolerates a not-found: when the backup
  configuration fetch answers not-found, \<^verbatim>\<open>Read\<close> goes on exactly as if the fetch had
  succeeded with the same body, and a successful \<^verbatim>\<open>Read\<close> holds the flatten of that
  body as its backup sub-state. The auth settings fetch and the diagnostic logs fetch
  have no such tolerance: once reached, any failure of them, a not-found included,
  makes \<^verbatim>\<open>Read\<close> return the wrapped error.
\<close>

theorem Read_only_backup_tolerates_not_found:
  "(not_found (r_GetBackupConfigurationSlot env) \<longrightarrow>
      Read env = Read (env\<lparr>r_GetBackupConfigurationSlot :=
                         (r_GetBackupConfigurationSlot env)\<lparr>failed := False\<rparr>\<rparr>)) \<and>
   (snd (Read env) = Success st \<longrightarrow>
      Backup st = FlattenBackupConfig env (body (r_GetBackupConfigurationSlot env))) \<and>
   (GetAuthSettingsSlot \<in> set (fst (Read env)) \<and> failed (r_GetAuthSettingsSlot env) \<longrightarrow>
      snd (Read env) = Errorf ''reading Auth Settings for Linux %s: %+v'') \<and>
   (GetDiagnosticLogsConfigurationSlot \<in> set (fst (Read env)) \<and>
    failed (r_GetDiagnosticLogsConfigurationSlot env) \<longrightarrow>
      snd (Read env) = Errorf ''reading logs configuration for Linux %s: %+v'')"
proof (intro conjI impI)
  assume "not_found (r_GetBackupConfigurationSlot env)"
  then show "Read env = Read (env\<lparr>r_GetBackupConfigurationSlot :=
                                 (r_GetBackupConfigurationSlot env)\<lparr>failed := False\<rparr>\<rparr>)"
    by (simp add: Read_def Read_flatten_def Read_state_def unpack_backup_update
          split: option.splits)
next
  assume "snd (Read env) = Success st"
  then show "Backup st = FlattenBackupConfig env (body (r_GetBackupConfigurationSlot env))"
    by (auto simp: Read_def Read_flatten_def Let_def split: option.splits if_splits
          dest!: set_SiteConfig0_Backup)
next
  assume "GetAuthSettingsSlot \<in> set (fst (Read env)) \<and> failed (r_GetAuthSettingsSlot env)"
  then show "snd (Read env) = Errorf ''reading Auth Settings for Linux %s: %+v''"
    by (auto simp: Read_def split: option.splits if_splits)
next
  assume "GetDiagnosticLogsConfigurationSlot \<in> set (fst (Read env)) \<and>
          failed (r_GetDiagnosticLogsConfigurationSlot env)"
  then show "snd (Read env) = Errorf ''reading logs configuration for Linux %s: %+v''"
    by (auto simp: Read_def split: option.splits if_splits)
qed

theorem Read_only_backup_tolerates_not_found_witness:
  "failed (r_GetBackupConfigurationSlot example_read_env) \<and>
   not_found (r_GetBackupConfigurationSlot example_read_env) \<and>
   snd (Read example_read_env) = Success example_read_state \<and>
   Read example_read_env =
     Read (example_read_env\<lparr>r_GetBackupConfigurationSlot :=
             (r_GetBackupConfigurationSlot example_read_env)\<lparr>failed := False\<rparr>\<rparr>) \<and>
   Backup example_read_state = [] \<and>
   GetAuthSettingsSlot \<in> set (fst (Read example_read_env_auth_not_found)) \<and>
   failed (r_GetAuthSettingsSlot example_read_env_auth_not_found) \<and>
   snd (Read example_read_env_auth_not_found) = Errorf ''reading Auth Settings for Linux %s: %+v''"
proof -
  have backup: "failed (r_GetBackupConfigurationSlot example_read_env)"
    "not_found (r_GetBackupConfigurationSlot example_read_env)"
    by (simp_all add: example_read_env_def)
  have flat: "FlattenBackupConfig example_read_env
                (body (r_GetBackupConfigurationSlot example_read_env)) = []"
    by (simp add: example_read_env_def)
  have auth: "GetAuthSettingsSlot \<in> set (fst (Read example_read_env_auth_not_found))"
    "failed (r_GetAuthSettingsSlot example_read_env_auth_not_found)"
    by (simp_all add: example_defs Read_def)
  from Read_only_backup_tolerates_not_found [of example_read_env example_read_state]
       Read_only_backup_tolerates_not_found [of example_read_env_auth_not_found example_read_state]
       backup flat auth example_read_run
  show ?thesis by simp
qed

text \<open>
  The claim as stated fails for the auth settings: a not-found answer of their fetch
  makes \<^verbatim>\<open>Read\<close> fail.
\<close>

theorem Read_auth_not_found_counterexample:
  "failed (r_GetAuthSettingsSlot example_read_env_auth_not_found) \<and>
   not_found (r_GetAuthSettingsSlot example_read_env_auth_not_found) \<and>
   snd (Read example_read_env_auth_not_found) = Errorf ''reading Auth Settings for Linux %s: %+v''"
  by (simp add: example_defs Read_def)

subsection \<open>Update\<close>

lemma Update_subresources_only_if:
  "c \<in> set (fst (Update_subresources env st)) \<Longrightarrow>
     (c = UpdateConnectionStringsSlot \<and> HasChange env ''connection_string'') \<or>
     (c = UpdateAuthSettingsSlot \<and> HasChange env ''auth_settings'') \<or>
     ((c = DeleteBackupConfigurationSlot \<or> c = UpdateBackupConfigurationSlot) \<and> HasChange env ''backup'') \<or>
     (c = UpdateDiagnosticLogsConfigSlot \<and> HasChange env ''site_config.0.app_service_logs'')"
  unfolding Update_subresources_def
  by (auto dest!: in_gated in_call_then split: if_splits list.splits)

lemma Update_subresources_if:
  assumes "snd (Update_subresources env st) = Success u"
  shows "(HasChange env ''connection_string'' \<longrightarrow> UpdateConnectionStringsSlot \<in> set (fst (Update_subresources env st))) \<and>
     (HasChange env ''auth_settings'' \<longrightarrow> UpdateAuthSettingsSlot \<in> set (fst (Update_subresources env st))) \<and>
     (HasChange env ''backup'' \<longrightarrow> DeleteBackupConfigurationSlot \<in> set (fst (Update_subresources env st))
         \<or> UpdateBackupConfigurationSlot \<in> set (fst (Update_subresources env st))) \<and>
     (HasChange env ''site_config.0.app_service_logs'' \<longrightarrow> UpdateDiagnosticLogsConfigSlot \<in> set (fst (Update_subresources env st)))"
  using assms unfolding Update_subresources_def
  by (auto simp: snd_gated_Success snd_call_then_Success intro!: gated_issued gated_passes call_then_issued split: if_splits list.splits)



lemma Update_subresources_AppSettings:
  "Update_subresources env (state\<lparr>AppSettings := a\<rparr>) = Update_subresources env state"
  by (simp add: Update_subresources_def)

lemma Update_send_calls:
  "set (fst (Update_send env state e)) \<subseteq>
     {WaitForCompletionRef, UpdateConfigurationSlot} \<union> range CreateOrUpdateSlot \<union>
     set (fst (Update_subresources env state))"
  by (auto simp add: Update_send_def call_then_def Let_def Update_subresources_AppSettings
        split: option.split prod.split sum.split list.split)

lemma Update_send_success:
  "snd (Update_send env state e) = Success u \<longrightarrow>
     UpdateConfigurationSlot \<in> set (fst (Update_send env state e)) \<and>
     set (fst (Update_subresources env state)) \<subseteq> set (fst (Update_send env state e)) \<and>
     snd (Update_subresources env state) = Success u \<and>
     \<not> u_CreateOrUpdateSlot_failed env \<and> \<not> u_WaitForCompletionRef_failed env \<and>
     \<not> u_UpdateConfigurationSlot_failed env"
  by (auto simp add: Update_send_def call_then_def Let_def Update_subresources_AppSettings
        split: option.split prod.split sum.split list.split)

lemma Update_apply_calls:
  "x \<in> set (fst (Update_apply env state e send)) \<Longrightarrow>
     x \<in> {ListApplicationSettings, WaitForCompletionRef, UpdateConfigurationSlot} \<union>
         range CreateOrUpdateSlot \<union> set (fst (Update_subresources env state))"
  by (auto simp add: Update_apply_def after_def Let_def Update_subresources_AppSettings
        split: option.splits if_splits dest!: subsetD [OF Update_send_calls])

lemma Update_apply_success:
  assumes "snd (Update_apply env state e send) = Success u"
  shows "UpdateConfigurationSlot \<in> set (fst (Update_apply env state e send)) \<and>
     set (fst (Update_subresources env state)) \<subseteq> set (fst (Update_apply env state e send)) \<and>
     snd (Update_subresources env state) = Success u \<and>
     \<not> u_CreateOrUpdateSlot_failed env \<and> \<not> u_WaitForCompletionRef_failed env \<and>
     \<not> u_UpdateConfigurationSlot_failed env \<and>
     (send \<longrightarrow> \<not> failed (u_ListApplicationSettings env)) \<and>
     (HasChange env ''identity'' \<longrightarrow> expandIdentity env \<noteq> None)"
proof -
  from assms obtain st' e' where
    send: "snd (Update_send env st' e') = Success u"
    and tr: "set (fst (Update_send env st' e')) \<subseteq> set (fst (Update_apply env state e send))"
    and st': "Update_subresources env st' = Update_subresources env state"
    and ok: "send \<longrightarrow> \<not> failed (u_ListApplicationSettings env)"
       "HasChange env ''identity'' \<longrightarrow> expandIdentity env \<noteq> None"
    by (fastforce simp add: Update_apply_def after_def Let_def Update_subresources_AppSettings
          split: option.splits if_splits)
  from Update_send_success [of env st' e' u] send tr st' ok show ?thesis by auto
qed

lemma Update_calls:
  "x \<in> set (fst (Update env)) \<Longrightarrow>
     x \<in> {GetSlot, ServicePlanInfoForApp, ListApplicationSettings, WaitForCompletionRef,
          UpdateConfigurationSlot} \<union> range CreateOrUpdateSlot \<or>
     (\<exists>state. u_Decode env = Some state \<and> x \<in> set (fst (Update_subresources env state)))"
  by (auto simp add: Update_def after_def split: option.splits if_splits dest!: Update_apply_calls)

lemma Update_success:
  assumes "snd (Update env) = Success u"
  shows "\<exists>state planSKU. u_Decode env = Some state \<and> u_ServicePlanInfoForApp env = Some planSKU \<and>
     u_FunctionAppSlotID env \<noteq> None \<and> \<not> failed (u_GetSlot env) \<and>
     UpdateConfigurationSlot \<in> set (fst (Update env)) \<and>
     set (fst (Update_subresources env state)) \<subseteq> set (fst (Update env)) \<and>
     snd (Update_subresources env state) = Success u \<and>
     \<not> u_CreateOrUpdateSlot_failed env \<and> \<not> u_WaitForCompletionRef_failed env \<and>
     \<not> u_UpdateConfigurationSlot_failed env \<and>
     (\<not> PlanIsElastic env planSKU \<longrightarrow> \<not> failed (u_ListApplicationSettings env)) \<and>
     (HasChange env ''identity'' \<longrightarrow> expandIdentity env \<noteq> None)"
proof -
  from assms obtain sid state planSKU where
    d: "u_FunctionAppSlotID env = Some sid" "u_Decode env = Some state"
       "\<not> failed (u_GetSlot env)" "u_ServicePlanInfoForApp env = Some planSKU"
    by (auto simp add: Update_def split: option.splits if_splits)
  then have eq: "Update env = after [GetSlot, ServicePlanInfoForApp]
            (Update_apply env state (body (u_GetSlot env)) (\<not> PlanIsElastic env planSKU))"
    by (simp add: Update_def)
  with assms have "snd (Update_apply env state (body (u_GetSlot env)) (\<not> PlanIsElastic env planSKU)) = Success u"
    by (simp add: after_def)
  from Update_apply_success [OF this] d eq show ?thesis
    by (auto simp add: after_def)
qed

text \<open>
  C1, as amended. In every run of \<^verbatim>\<open>Update\<close> a connection strings, auth settings,
  backup (update or delete) or app service logs call is issued only if the change-set
  flag of its field is set; and in every run that returns without error each of them is
  issued when its flag is set (a run that fails earlier stops before the later calls).
  The site configuration call \<^verbatim>\<open>UpdateConfigurationSlot\<close> is not gated: every run that
  returns without error issues it, whatever the flag of \<^verbatim>\<open>site_config\<close>.
\<close>

theorem Update_subresource_calls_follow_change_set:
  "(UpdateConnectionStringsSlot \<in> set (fst (Update env)) \<longrightarrow> HasChange env ''connection_string'') \<and>
   (UpdateAuthSettingsSlot \<in> set (fst (Update env)) \<longrightarrow> HasChange env ''auth_settings'') \<and>
   (DeleteBackupConfigurationSlot \<in> set (fst (Update env)) \<or>
    UpdateBackupConfigurationSlot \<in> set (fst (Update env)) \<longrightarrow> HasChange env ''backup'') \<and>
   (UpdateDiagnosticLogsConfigSlot \<in> set (fst (Update env)) \<longrightarrow>
      HasChange env ''site_config.0.app_service_logs'') \<and>
   (snd (Update env) = Success () \<longrightarrow>
      (HasChange env ''connection_string'' \<longrightarrow> UpdateConnectionStringsSlot \<in> set (fst (Update env))) \<and>
      (HasChange env ''auth_settings'' \<longrightarrow> UpdateAuthSettingsSlot \<in> set (fst (Update env))) \<and>
      (HasChange env ''backup'' \<longrightarrow>
         DeleteBackupConfigurationSlot \<in> set (fst (Update env)) \<or>
         UpdateBackupConfigurationSlot \<in> set (fst (Update env))) \<and>
      (HasChange env ''site_config.0.app_service_logs'' \<longrightarrow>
         UpdateDiagnosticLogsConfigSlot \<in> set (fst (Update env))) \<and>
      UpdateConfigurationSlot \<in> set (fst (Update env)))"
proof -
  have only_if: "\<And>c. c \<in> set (fst (Update env)) \<Longrightarrow>
       c \<in> {UpdateConnectionStringsSlot, UpdateAuthSettingsSlot, DeleteBackupConfigurationSlot,
            UpdateBackupConfigurationSlot, UpdateDiagnosticLogsConfigSlot} \<Longrightarrow>
       (c = UpdateConnectionStringsSlot \<and> HasChange env ''connection_string'') \<or>
       (c = UpdateAuthSettingsSlot \<and> HasChange env ''auth_settings'') \<or>
       ((c = DeleteBackupConfigurationSlot \<or> c = UpdateBackupConfigurationSlot) \<and> HasChange env ''backup'') \<or>
       (c = UpdateDiagnosticLogsConfigSlot \<and> HasChange env ''site_config.0.app_service_logs'')"
  proof -
    fix c assume c: "c \<in> set (fst (Update env))"
      and k: "c \<in> {UpdateConnectionStringsSlot, UpdateAuthSettingsSlot, DeleteBackupConfigurationSlot,
            UpdateBackupConfigurationSlot, UpdateDiagnosticLogsConfigSlot}"
    from Update_calls [OF c] k obtain state where "c \<in> set (fst (Update_subresources env state))"
      by auto
    from Update_subresources_only_if [OF this] show "(c = UpdateConnectionStringsSlot \<and> HasChange env ''connection_string'') \<or>
       (c = UpdateAuthSettingsSlot \<and> HasChange env ''auth_settings'') \<or>
       ((c = DeleteBackupConfigurationSlot \<or> c = UpdateBackupConfigurationSlot) \<and> HasChange env ''backup'') \<or>
       (c = UpdateDiagnosticLogsConfigSlot \<and> HasChange env ''site_config.0.app_service_logs'')" .
  qed
  have "if": "snd (Update env) = Success () \<Longrightarrow>
      (HasChange env ''connection_string'' \<longrightarrow> UpdateConnectionStringsSlot \<in> set (fst (Update env))) \<and>
      (HasChange env ''auth_settings'' \<longrightarrow> UpdateAuthSettingsSlot \<in> set (fst (Update env))) \<and>
      (HasChange env ''backup'' \<longrightarrow>
         DeleteBackupConfigurationSlot \<in> set (fst (Update env)) \<or>
         UpdateBackupConfigurationSlot \<in> set (fst (Update env))) \<and>
      (HasChange env ''site_config.0.app_service_logs'' \<longrightarrow>
         UpdateDiagnosticLogsConfigSlot \<in> set (fst (Update env))) \<and>
      UpdateConfigurationSlot \<in> set (fst (Update env))"
  proof -
    assume "snd (Update env) = Success ()"
    from Update_success [OF this] obtain state where
      s: "snd (Update_subresources env state) = Success ()"
      "set (fst (Update_subresources env state)) \<subseteq> set (fst (Update env))"
      "UpdateConfigurationSlot \<in> set (fst (Update env))" by blast
    from Update_subresources_if [OF s(1)] s(2,3) show ?thesis by blast
  qed
  from only_if [of UpdateConnectionStringsSlot] only_if [of UpdateAuthSettingsSlot]
       only_if [of DeleteBackupConfigurationSlot] only_if [of UpdateBackupConfigurationSlot]
       only_if [of UpdateDiagnosticLogsConfigSlot] "if"
  show ?thesis by auto
qed


theorem Update_subresource_calls_follow_change_set_witness:
  "snd (Update example_update_env) = Success () \<and>
   HasChange example_update_env ''tags'' \<and>
   UpdateBackupConfigurationSlot \<notin> set (fst (Update example_update_env)) \<and>
   DeleteBackupConfigurationSlot \<notin> set (fst (Update example_update_env)) \<and>
   UpdateAuthSettingsSlot \<notin> set (fst (Update example_update_env)) \<and>
   UpdateConnectionStringsSlot \<notin> set (fst (Update example_update_env)) \<and>
   snd (Update example_update_env_all_changed) = Success () \<and>
   HasChange example_update_env_all_changed ''connection_string'' \<and>
   UpdateConnectionStringsSlot \<in> set (fst (Update example_update_env_all_changed)) \<and>
   UpdateAuthSettingsSlot \<in> set (fst (Update example_update_env_all_changed)) \<and>
   UpdateDiagnosticLogsConfigSlot \<in> set (fst (Update example_update_env_all_changed)) \<and>
   UpdateConfigurationSlot \<in> set (fst (Update example_update_env_all_changed))"
proof -
  have flags: "HasChange example_update_env ''tags''"
    "\<not> HasChange example_update_env ''connection_string''"
    "\<not> HasChange example_update_env ''auth_settings''"
    "\<not> HasChange example_update_env ''backup''"
    by (simp_all add: example_update_env_def)
  have flags': "HasChange example_update_env_all_changed ''connection_string''"
    "HasChange example_update_env_all_changed ''auth_settings''"
    "HasChange example_update_env_all_changed ''site_config.0.app_service_logs''"
    by (simp_all add: example_update_env_all_changed_def)
  have run: "snd (Update example_update_env) = Success ()"
    by (simp add: example_defs run_defs)
  have run': "snd (Update example_update_env_all_changed) = Success ()"
    by (simp add: example_defs run_defs)
  from Update_subresource_calls_follow_change_set [of example_update_env]
       Update_subresource_calls_follow_change_set [of example_update_env_all_changed]
       flags flags' run run'
  show ?thesis by blast
qed

text \<open>
  The claim as stated fails for the site configuration: with only \<^verbatim>\<open>tags\<close> changed,
  the site configuration call is issued all the same.
\<close>

theorem Update_site_config_call_not_gated_counterexample:
  "\<not> HasChange example_update_env ''site_config'' \<and>
   UpdateConfigurationSlot \<in> set (fst (Update example_update_env))"
  by (simp add: example_defs run_defs)

subsection \<open>The nil map in Update\<close>

lemma set_props_Some: "SiteProperties e \<noteq> None \<Longrightarrow> \<exists>e'. set_props f e = Some e' \<and> SiteProperties e' \<noteq> None"
  by (auto simp: set_props_def split: option.splits)

lemma when_changed_Some: "SiteProperties e \<noteq> None \<Longrightarrow> \<exists>e'. when_changed env key (set_props f) e = Some e' \<and> SiteProperties e' \<noteq> None"
  using set_props_Some[of e f] by (auto simp: when_changed_def)

lemma Update_properties_Some:
  assumes "SiteProperties e \<noteq> None"
  shows "\<exists>e'. Update_properties env st e = Some e' \<and> SiteProperties e' \<noteq> None"
proof -
  from when_changed_Some[OF assms] obtain e1 where
    1: "when_changed env ''enabled'' (set_props (\<lambda>p. p\<lparr>sp_Enabled := Some (Enabled st)\<rparr>)) e = Some e1" "SiteProperties e1 \<noteq> None" by blast
  from when_changed_Some[OF 1(2)] obtain e2 where
    2: "when_changed env ''https_only'' (set_props (\<lambda>p. p\<lparr>sp_HTTPSOnly := Some (HttpsOnly st)\<rparr>)) e1 = Some e2" "SiteProperties e2 \<noteq> None" by blast
  from when_changed_Some[OF 2(2)] obtain e3 where
    3: "when_changed env ''client_certificate_enabled'' (set_props (\<lambda>p. p\<lparr>sp_ClientCertEnabled := Some (ClientCertEnabled st)\<rparr>)) e2 = Some e3" "SiteProperties e3 \<noteq> None" by blast
  from when_changed_Some[OF 3(2)] obtain e4 where
    4: "when_changed env ''client_certificate_mode'' (set_props (\<lambda>p. p\<lparr>sp_ClientCertMode := ClientCertMode st\<rparr>)) e3 = Some e4" "SiteProperties e4 \<noteq> None" by blast
  from 1 2 3 4 show ?thesis by (simp add: Update_properties_def)
qed

lemma Update_send_nil_map:
  assumes "BuiltinLogging st" "StorageUsesMSI st" "AppSettings st = None" "SiteProperties e \<noteq> None"
  shows "Update_send env st e = ([], Panic ''assignment to entry in nil map'')"
  using assms by (auto simp: Update_send_def Update_builtinLogging_def split: prod.splits option.splits)

text \<open>
  C9. With \<^verbatim>\<open>builtin_logging_enabled\<close> and \<^verbatim>\<open>storage_uses_managed_identity\<close> both true,
  no \<^verbatim>\<open>app_settings\<close> configured (a nil map) and an elastic plan (content settings not
  sent, so nothing makes the map), \<^verbatim>\<open>Update\<close> assigns the key
  \<^verbatim>\<open>AzureWebJobsDashboard__accountName\<close> to the nil map: it panics after the plan lookup,
  before any update call.
\<close>

theorem Update_nil_app_settings_panics:
  assumes "u_FunctionAppSlotID env = Some sid"
    and "u_Decode env = Some state"
    and "BuiltinLogging state" and "StorageUsesMSI state" and "AppSettings state = None"
    and "\<not> failed (u_GetSlot env)"
    and "SiteProperties (body (u_GetSlot env)) \<noteq> None"
    and "u_ServicePlanInfoForApp env = Some planSKU"
    and "PlanIsElastic env planSKU"
    and "HasChange env ''identity'' \<longrightarrow> expandIdentity env \<noteq> None"
  shows "Update env = ([GetSlot, ServicePlanInfoForApp], Panic ''assignment to entry in nil map'')"
proof -
  from Update_properties_Some[OF assms(7)] obtain e1 where
    e1: "Update_properties env state (body (u_GetSlot env)) = Some e1" "SiteProperties e1 \<noteq> None" by blast
  have "\<exists>e2. (if HasChange env ''identity'' then
              (case expandIdentity env of
                 None \<Rightarrow> None
               | Some expandedIdentity \<Rightarrow> Some (e1\<lparr>site_Identity := expandedIdentity\<rparr>))
            else Some e1) = Some e2 \<and> SiteProperties e2 \<noteq> None"
    using assms(10) e1(2) by (auto split: option.splits)
  then obtain e2 where e2: "(if HasChange env ''identity'' then
              (case expandIdentity env of
                 None \<Rightarrow> None
               | Some expandedIdentity \<Rightarrow> Some (e1\<lparr>site_Identity := expandedIdentity\<rparr>))
            else Some e1) = Some e2" "SiteProperties e2 \<noteq> None"
    by blast
  from when_changed_Some[OF e2(2)] obtain e3 where
    e3: "when_changed env ''key_vault_reference_identity_id''
             (set_props (\<lambda>p. p\<lparr>sp_KeyVaultReferenceIdentity := Some (KeyVaultReferenceIdentityID state)\<rparr>)) e2 = Some e3"
      "SiteProperties e3 \<noteq> None" by blast
  have send: "\<And>e. SiteProperties e \<noteq> None \<Longrightarrow> Update_send env state e = ([], Panic ''assignment to entry in nil map'')"
    using Update_send_nil_map[OF assms(3,4,5)] by blast
  have "Update_apply env state (body (u_GetSlot env)) False = ([], Panic ''assignment to entry in nil map'')"
    unfolding Update_apply_def using e1 e2 e3 send by (simp add: Let_def)
  then show ?thesis using assms by (simp add: Update_def after_def)
qed


theorem Update_nil_app_settings_panics_witness:
  "Update example_update_env_nil_settings =
     ([GetSlot, ServicePlanInfoForApp], Panic ''assignment to entry in nil map'')"
  by (rule Update_nil_app_settings_panics
        [where sid = example_slot_id and state = example_model and planSKU = "Some ''EP1''"])
     (simp_all add: example_defs)

subsection \<open>Failures are returned\<close>
















subsection \<open>Flatten of the application settings\<close>










end
